theory Spec2Isabelle
  imports Complex_Main
begin

section \<open>Tensor values\<close>

text \<open>
  The losses of \<^verbatim>\<open>main.py\<close> are computed by TensorFlow on float tensors.  A tensor
  entry is modelled as a real number or one of the three special values of IEEE
  arithmetic, so that a division by zero and the test \<^verbatim>\<open>tf.math.is_nan\<close> mean what they
  mean in the program.  Rounding to 32 bits, overflow and the sign of a zero are not
  modelled: arithmetic on finite values is exact.  The statements below are therefore
  about which entries are zero, NaN or positive, about the order in which the operations
  are applied and about bounds that rounding to nearest preserves; a statement whose
  truth would turn on one unit in the last place of a float is not made.
\<close>

datatype tfloat = Finite real | PosInf | NegInf | NaN

fun tf_neg :: "tfloat \<Rightarrow> tfloat" where
  "tf_neg (Finite x) = Finite (- x)"
| "tf_neg PosInf = NegInf"
| "tf_neg NegInf = PosInf"
| "tf_neg NaN = NaN"

fun tf_add :: "tfloat \<Rightarrow> tfloat \<Rightarrow> tfloat" where
  "tf_add (Finite x) (Finite y) = Finite (x + y)"
| "tf_add NaN b = NaN"
| "tf_add a NaN = NaN"
| "tf_add PosInf NegInf = NaN"
| "tf_add NegInf PosInf = NaN"
| "tf_add PosInf b = PosInf"
| "tf_add a PosInf = PosInf"
| "tf_add NegInf b = NegInf"
| "tf_add a NegInf = NegInf"

definition tf_sub :: "tfloat \<Rightarrow> tfloat \<Rightarrow> tfloat" where
  "tf_sub a b = tf_add a (tf_neg b)"

definition signed_inf :: "bool \<Rightarrow> tfloat" where
  "signed_inf positive = (if positive then PosInf else NegInf)"

fun tf_mul :: "tfloat \<Rightarrow> tfloat \<Rightarrow> tfloat" where
  "tf_mul (Finite x) (Finite y) = Finite (x * y)"
| "tf_mul NaN b = NaN"
| "tf_mul a NaN = NaN"
| "tf_mul (Finite x) PosInf = (if x = 0 then NaN else signed_inf (0 < x))"
| "tf_mul (Finite x) NegInf = (if x = 0 then NaN else signed_inf (x < 0))"
| "tf_mul PosInf (Finite y) = (if y = 0 then NaN else signed_inf (0 < y))"
| "tf_mul NegInf (Finite y) = (if y = 0 then NaN else signed_inf (y < 0))"
| "tf_mul PosInf PosInf = PosInf"
| "tf_mul PosInf NegInf = NegInf"
| "tf_mul NegInf PosInf = NegInf"
| "tf_mul NegInf NegInf = PosInf"

fun tf_div :: "tfloat \<Rightarrow> tfloat \<Rightarrow> tfloat" where
  "tf_div (Finite x) (Finite y) =
     (if y \<noteq> 0 then Finite (x / y)
      else if x = 0 then NaN
      else signed_inf (0 < x))"
| "tf_div NaN b = NaN"
| "tf_div a NaN = NaN"
| "tf_div (Finite x) PosInf = Finite 0"
| "tf_div (Finite x) NegInf = Finite 0"
| "tf_div PosInf (Finite y) = signed_inf (0 \<le> y)"
| "tf_div NegInf (Finite y) = signed_inf (y < 0)"
| "tf_div PosInf PosInf = NaN"
| "tf_div PosInf NegInf = NaN"
| "tf_div NegInf PosInf = NaN"
| "tf_div NegInf NegInf = NaN"

text \<open>\<^verbatim>\<open>tf.where(tf.math.is_nan(v), tf.zeros_like(v), v)\<close>, on one entry and on a vector.\<close>

definition is_nan :: "tfloat \<Rightarrow> bool" where
  "is_nan a = (a = NaN)"

definition nan_to_zero :: "tfloat \<Rightarrow> tfloat" where
  "nan_to_zero a = (if is_nan a then Finite 0 else a)"

definition where_nan_zero :: "tfloat list \<Rightarrow> tfloat list" where
  "where_nan_zero v = map nan_to_zero v"

text \<open>\<^verbatim>\<open>K.sum\<close> and \<^verbatim>\<open>K.mean\<close> of a vector.  The mean of a vector of length zero is
  \<open>0 / 0\<close>, which is NaN.\<close>

definition k_sum :: "tfloat list \<Rightarrow> tfloat" where
  "k_sum v = foldr tf_add v (Finite 0)"

definition k_mean :: "tfloat list \<Rightarrow> tfloat" where
  "k_mean v = tf_div (k_sum v) (Finite (real (length v)))"

section \<open>Two-dimensional tensors\<close>

text \<open>
  A label or prediction tensor has shape \<open>(batch, columns)\<close>.  It is stored as its list
  of rows together with its number of columns, which a tensor of zero rows still has.
  The entries are finite: labels are 0 or 1 and predictions come out of a sigmoid, and
  \<^verbatim>\<open>K.cast(_, 'float')\<close> leaves them as they are.
\<close>

record tensor =
  ncols :: nat
  rows :: "real list list"

definition nrows :: "tensor \<Rightarrow> nat" where
  "nrows t = length (rows t)"

definition wf_tensor :: "tensor \<Rightarrow> bool" where
  "wf_tensor t = list_all (\<lambda>r. length r = ncols t) (rows t)"

definition same_shape :: "tensor \<Rightarrow> tensor \<Rightarrow> bool" where
  "same_shape a b = (wf_tensor a \<and> wf_tensor b \<and> ncols a = ncols b \<and> nrows a = nrows b)"

text \<open>Elementwise \<^verbatim>\<open>a * b\<close> and \<^verbatim>\<open>1 - a\<close>.  The program only multiplies tensors of the
  same shape; on other shapes TensorFlow broadcasts or raises, which is outside
  this model.\<close>

definition t_mul :: "tensor \<Rightarrow> tensor \<Rightarrow> tensor" where
  "t_mul a b = \<lparr>ncols = ncols a, rows = map2 (map2 (*)) (rows a) (rows b)\<rparr>"

definition one_minus :: "tensor \<Rightarrow> tensor" where
  "one_minus a = \<lparr>ncols = ncols a, rows = map (map (\<lambda>x. 1 - x)) (rows a)\<rparr>"

text \<open>\<^verbatim>\<open>K.sum(a, axis=0)\<close>: one sum per column, over the batch.\<close>

definition k_sum0 :: "tensor \<Rightarrow> real list" where
  "k_sum0 a = map (\<lambda>j. sum_list (map (\<lambda>r. r ! j) (rows a))) [0..<ncols a]"

text \<open>\<^verbatim>\<open>t[slice(lo, hi)]\<close> selects along the first axis, the batch; \<^verbatim>\<open>t[:, slice(lo, hi)]\<close>
  selects columns.  Both clip at the end of the axis, as Python slices do.\<close>

definition slice_list :: "nat \<Rightarrow> nat \<Rightarrow> 'a list \<Rightarrow> 'a list" where
  "slice_list lo hi xs = take (hi - lo) (drop lo xs)"

definition slice_rows :: "nat \<Rightarrow> nat \<Rightarrow> tensor \<Rightarrow> tensor" where
  "slice_rows lo hi t = \<lparr>ncols = ncols t, rows = slice_list lo hi (rows t)\<rparr>"

definition slice_cols :: "nat \<Rightarrow> nat \<Rightarrow> tensor \<Rightarrow> tensor" where
  "slice_cols lo hi t =
     \<lparr>ncols = length (slice_list lo hi [0..<ncols t]),
      rows = map (slice_list lo hi) (rows t)\<rparr>"

section \<open>The F1 losses\<close>

text \<open>
  \<open>eps\<close> is \<^verbatim>\<open>K.epsilon()\<close>, the fuzz factor of the Keras backend (\<open>1e-7\<close> unless
  configured otherwise); it is a parameter here.

  Lines 32 to 39 of \<^verbatim>\<open>f1_loss\<close> and lines 61 to 68 of \<^verbatim>\<open>weighted_f1_loss\<close> are the same
  text: they compute the vector \<open>f1\<close>, one entry per column.  Each intermediate
  vector of that text has a definition of its own here.
\<close>

definition v_div :: "real list \<Rightarrow> real list \<Rightarrow> tfloat list" where
  "v_div a b = map2 (\<lambda>x y. tf_div (Finite x) (Finite y)) a b"

definition true_positives :: "tensor \<Rightarrow> tensor \<Rightarrow> real list" where
  "true_positives y_true y_pred = k_sum0 (t_mul y_true y_pred)"

definition false_positives :: "tensor \<Rightarrow> tensor \<Rightarrow> real list" where
  "false_positives y_true y_pred = k_sum0 (t_mul (one_minus y_true) y_pred)"

definition false_negatives :: "tensor \<Rightarrow> tensor \<Rightarrow> real list" where
  "false_negatives y_true y_pred = k_sum0 (t_mul y_true (one_minus y_pred))"

text \<open>The three denominators: \<^verbatim>\<open>tp + fp + K.epsilon()\<close>, \<^verbatim>\<open>tp + fn + K.epsilon()\<close> and
  \<^verbatim>\<open>p + r + K.epsilon()\<close>.\<close>

definition precision_denominator :: "real \<Rightarrow> tensor \<Rightarrow> tensor \<Rightarrow> real list" where
  "precision_denominator eps y_true y_pred =
     map (\<lambda>x. x + eps) (map2 (+) (true_positives y_true y_pred) (false_positives y_true y_pred))"

definition recall_denominator :: "real \<Rightarrow> tensor \<Rightarrow> tensor \<Rightarrow> real list" where
  "recall_denominator eps y_true y_pred =
     map (\<lambda>x. x + eps) (map2 (+) (true_positives y_true y_pred) (false_negatives y_true y_pred))"

definition precision :: "real \<Rightarrow> tensor \<Rightarrow> tensor \<Rightarrow> tfloat list" where
  "precision eps y_true y_pred =
     v_div (true_positives y_true y_pred) (precision_denominator eps y_true y_pred)"

definition recall :: "real \<Rightarrow> tensor \<Rightarrow> tensor \<Rightarrow> tfloat list" where
  "recall eps y_true y_pred =
     v_div (true_positives y_true y_pred) (recall_denominator eps y_true y_pred)"

definition f1_denominator :: "real \<Rightarrow> tensor \<Rightarrow> tensor \<Rightarrow> tfloat list" where
  "f1_denominator eps y_true y_pred =
     map (\<lambda>x. tf_add x (Finite eps))
       (map2 tf_add (precision eps y_true y_pred) (recall eps y_true y_pred))"

definition f1_vector :: "real \<Rightarrow> tensor \<Rightarrow> tensor \<Rightarrow> tfloat list" where
  "f1_vector eps y_true y_pred =
     (let p = precision eps y_true y_pred;
          r = recall eps y_true y_pred
      in map2 tf_div
           (map2 tf_mul (map (tf_mul (Finite 2)) p) r)
           (f1_denominator eps y_true y_pred))"

definition f1_columns :: "real \<Rightarrow> tensor \<Rightarrow> tensor \<Rightarrow> tfloat list" where
  "f1_columns eps y_true y_pred = where_nan_zero (f1_vector eps y_true y_pred)"

definition f1_loss :: "real \<Rightarrow> tensor \<Rightarrow> tensor \<Rightarrow> tfloat" where
  "f1_loss eps y_true y_pred = tf_sub (Finite 1) (k_mean (f1_columns eps y_true y_pred))"

definition weighted_f1_raw :: "real \<Rightarrow> tensor \<Rightarrow> tensor \<Rightarrow> tfloat list" where
  "weighted_f1_raw eps y_true y_pred =
     (let gp = k_sum0 y_true;
          f1 = f1_vector eps y_true y_pred
      in map (\<lambda>x. tf_div x (Finite (sum_list gp)))
           (map2 tf_mul f1 (map Finite gp)))"

definition weighted_f1_columns :: "real \<Rightarrow> tensor \<Rightarrow> tensor \<Rightarrow> tfloat list" where
  "weighted_f1_columns eps y_true y_pred = where_nan_zero (weighted_f1_raw eps y_true y_pred)"

definition weighted_f1_loss :: "real \<Rightarrow> tensor \<Rightarrow> tensor \<Rightarrow> tfloat" where
  "weighted_f1_loss eps y_true y_pred =
     tf_sub (Finite 1) (k_sum (weighted_f1_columns eps y_true y_pred))"

definition wf1_loss_p :: "real \<Rightarrow> tensor \<Rightarrow> tensor \<Rightarrow> tfloat" where
  "wf1_loss_p eps y_true y_pred =
     tf_div
       (tf_add
          (tf_add (weighted_f1_loss eps (slice_rows 0 90 y_true) (slice_rows 0 90 y_pred))
                  (weighted_f1_loss eps (slice_rows 90 202 y_true) (slice_rows 90 202 y_pred)))
          (weighted_f1_loss eps (slice_rows 202 248 y_true) (slice_rows 202 248 y_pred)))
       (Finite 3)"

section \<open>Errors\<close>

text \<open>The exceptions the modelled statements can raise: an index out of range, and a
  shape that does not fit (Keras and NumPy raise \<^verbatim>\<open>ValueError\<close>).\<close>

datatype error = IndexError | ValueError

section \<open>The layer graph\<close>

text \<open>
  \<^verbatim>\<open>block\<close> does not compute on numbers: it builds a graph of Keras layers.  A value of
  type \<open>layer\<close> is the symbolic tensor that a layer call returns, with the layers below
  it.  A node used twice (the output of the dropout, used by three dense layers) is the
  same term twice.  Every \<open>Dense\<close> node has parameters of its own; they are not modelled.
\<close>

datatype layer =
    Input nat
  | Concatenate "layer list"
  | Dense nat "string option" layer
  | Activation string layer
  | Dropout real layer
  | Add "layer list"

text \<open>\<^verbatim>\<open>t.shape[1]\<close>, the number of features of a symbolic tensor.\<close>

fun width :: "layer \<Rightarrow> nat" where
  "width (Input n) = n"
| "width (Concatenate ls) = sum_list (map width ls)"
| "width (Dense n a l) = n"
| "width (Activation a l) = width l"
| "width (Dropout rate l) = width l"
| "width (Add ls) = (case ls of [] \<Rightarrow> 0 | l # _ \<Rightarrow> width l)"

text \<open>\<^verbatim>\<open>Add()([a, b])\<close> raises unless the two shapes agree.\<close>

definition add_layers :: "layer \<Rightarrow> layer \<Rightarrow> error + layer" where
  "add_layers a b = (if width a = width b then Inr (Add [a, b]) else Inl ValueError)"

text \<open>\<^verbatim>\<open>inputs[i]\<close> for \<open>i \<ge> 0\<close>.\<close>

definition item :: "'a list \<Rightarrow> nat \<Rightarrow> error + 'a" where
  "item xs i = (if i < length xs then Inr (xs ! i) else Inl IndexError)"

text \<open>Python's \<^verbatim>\<open>int(x)\<close> on a float truncates towards zero.  The product by \<open>1.2\<close> is
  taken in the reals.\<close>

definition py_int :: "real \<Rightarrow> int" where
  "py_int x = (if 0 \<le> x then \<lfloor>x\<rfloor> else \<lceil>x\<rceil>)"

definition dense_units :: "nat \<Rightarrow> nat \<Rightarrow> nat" where
  "dense_units w1 w2 = nat (py_int (real (w1 + w2) * 1.2))"

text \<open>The first loop of \<^verbatim>\<open>block\<close>, over \<^verbatim>\<open>range(0, 3)\<close>.\<close>

fun first_part_loop :: "layer list \<Rightarrow> nat list \<Rightarrow> layer list \<Rightarrow> error + layer list" where
  "first_part_loop inputs [] first_part = Inr first_part"
| "first_part_loop inputs (i # is) first_part =
     (case item inputs i of
        Inl e \<Rightarrow> Inl e
      | Inr a \<Rightarrow>
          (case item inputs (i + 3) of
             Inl e \<Rightarrow> Inl e
           | Inr b \<Rightarrow>
               first_part_loop inputs is
                 (first_part @
                    [Dense (dense_units (width a) (width b)) (Some ''relu'')
                       (Concatenate [a, b])])))"

definition second_part_of :: "layer list \<Rightarrow> layer" where
  "second_part_of first_part =
     Dropout 0.1 (Activation ''relu'' (Dense 400 None (Concatenate first_part)))"

text \<open>
  \<^verbatim>\<open>Activation(act)\<close> looks the name \<open>act\<close> up among the activation functions of Keras and
  raises \<^verbatim>\<open>ValueError\<close> when there is none of that name.  \<^verbatim>\<open>relu\<close> and \<^verbatim>\<open>sigmoid\<close>, the
  two names the program passes, are activation functions; which other names Keras knows
  is the parameter \<open>known\<close>.
\<close>

definition is_activation :: "(string \<Rightarrow> bool) \<Rightarrow> string \<Rightarrow> bool" where
  "is_activation known act = (act = ''relu'' \<or> act = ''sigmoid'' \<or> known act)"

definition activation_layer :: "(string \<Rightarrow> bool) \<Rightarrow> string \<Rightarrow> layer \<Rightarrow> error + layer" where
  "activation_layer known act l =
     (if is_activation known act then Inr (Activation act l) else Inl ValueError)"

text \<open>The second loop of \<^verbatim>\<open>block\<close>.\<close>

fun last_part_loop ::
  "(string \<Rightarrow> bool) \<Rightarrow> layer list \<Rightarrow> string \<Rightarrow> layer \<Rightarrow> nat list \<Rightarrow> layer list \<Rightarrow>
     error + layer list" where
  "last_part_loop known inputs act second_part [] last_part = Inr last_part"
| "last_part_loop known inputs act second_part (i # is) last_part =
     (case item inputs i of
        Inl e \<Rightarrow> Inl e
      | Inr a \<Rightarrow>
          (case add_layers a (Dense (width a) None second_part) of
             Inl e \<Rightarrow> Inl e
           | Inr layer \<Rightarrow>
               (case activation_layer known act layer of
                  Inl e \<Rightarrow> Inl e
                | Inr out \<Rightarrow>
                    last_part_loop known inputs act second_part is (last_part @ [out]))))"

definition block :: "(string \<Rightarrow> bool) \<Rightarrow> layer list \<Rightarrow> string \<Rightarrow> error + layer list" where
  "block known inputs act =
     (case first_part_loop inputs [0..<3] [] of
        Inl e \<Rightarrow> Inl e
      | Inr first_part \<Rightarrow>
          last_part_loop known inputs act (second_part_of first_part) [0..<3] [])"

text \<open>Lines 94 to 133: the six inputs, the paired inputs, the two blocks and the output
  of the model.\<close>

definition input_layers :: "layer list" where
  "input_layers = [Input 90, Input 112, Input 46, Input 18, Input 15, Input 8]"

definition paired_input :: "layer list" where
  "paired_input =
     [Concatenate [input_layers ! 0, input_layers ! 3],
      Concatenate [input_layers ! 1, input_layers ! 4],
      Concatenate [input_layers ! 2, input_layers ! 5]]"

definition model_outputs :: "(string \<Rightarrow> bool) \<Rightarrow> error + layer" where
  "model_outputs known =
     (case block known input_layers ''relu'' of
        Inl e \<Rightarrow> Inl e
      | Inr b \<Rightarrow>
          (case block known (b @ paired_input) ''sigmoid'' of
             Inl e \<Rightarrow> Inl e
           | Inr b \<Rightarrow> Inr (Concatenate b)))"

section \<open>Feature tables\<close>

text \<open>
  A pandas table read with \<^verbatim>\<open>index_col=0\<close>: the index (the sample identifiers), the
  number of columns, and the rows of cells.
\<close>

record frame =
  frame_index :: "int list"
  frame_ncols :: nat
  frame_rows :: "real list list"

definition wf_frame :: "frame \<Rightarrow> bool" where
  "wf_frame d =
     (length (frame_index d) = length (frame_rows d) \<and>
      list_all (\<lambda>r. length r = frame_ncols d) (frame_rows d))"

text \<open>\<^verbatim>\<open>data.iloc[:, rng]\<close> with a list of positions: pandas raises \<^verbatim>\<open>IndexError\<close> when a
  position is past the last column, and returns a new table otherwise.\<close>

definition iloc_cols :: "frame \<Rightarrow> nat list \<Rightarrow> error + frame" where
  "iloc_cols data rng =
     (if list_all (\<lambda>j. j < frame_ncols data) rng
      then Inr \<lparr>frame_index = frame_index data,
                frame_ncols = length rng,
                frame_rows = map (\<lambda>r. map (\<lambda>j. r ! j) rng) (frame_rows data)\<rparr>
      else Inl IndexError)"

fun splitter_loop :: "frame \<Rightarrow> nat list list \<Rightarrow> frame list \<Rightarrow> error + frame list" where
  "splitter_loop data [] x_data = Inr x_data"
| "splitter_loop data (rng # rngs) x_data =
     (case iloc_cols data rng of
        Inl e \<Rightarrow> Inl e
      | Inr sub \<Rightarrow> splitter_loop data rngs (x_data @ [sub]))"

definition splitter :: "frame \<Rightarrow> error + frame list" where
  "splitter data =
     splitter_loop data
       [[0..<90], [90..<202], [202..<248], [248..<266], [266..<281], [281..<289]] []"

section \<open>Batched inference\<close>












section \<open>Auxiliary definitions for the statements\<close>

text \<open>The node that the first loop of \<^verbatim>\<open>block\<close> appends for index \<open>i\<close>, and the node
  that the second loop appends.\<close>

definition first_layer :: "layer list \<Rightarrow> nat \<Rightarrow> layer" where
  "first_layer inputs i =
     Dense (dense_units (width (inputs ! i)) (width (inputs ! (i + 3)))) (Some ''relu'')
       (Concatenate [inputs ! i, inputs ! (i + 3)])"

definition last_layer :: "layer list \<Rightarrow> string \<Rightarrow> layer \<Rightarrow> nat \<Rightarrow> layer" where
  "last_layer inputs act second_part i =
     Activation act (Add [inputs ! i, Dense (width (inputs ! i)) None second_part])"

text \<open>The width that the specification gives to the dense layers of the first part:
  \<open>1.2\<close> times the summed widths, rounded to the nearest integer.\<close>

definition round_units :: "nat \<Rightarrow> nat \<Rightarrow> nat" where
  "round_units w1 w2 = nat (round (1.2 * real (w1 + w2)))"

text \<open>
  The formulas of the specification, column by column.  \<open>entry t i j\<close> is the entry of
  sample \<open>i\<close> in column \<open>j\<close>; the sums run over the batch.
\<close>

definition entry :: "tensor \<Rightarrow> nat \<Rightarrow> nat \<Rightarrow> real" where
  "entry t i j = rows t ! i ! j"

definition spec_tp :: "tensor \<Rightarrow> tensor \<Rightarrow> nat \<Rightarrow> real" where
  "spec_tp y_true y_pred j =
     sum_list (map (\<lambda>i. entry y_true i j * entry y_pred i j) [0..<nrows y_true])"

definition spec_fp :: "tensor \<Rightarrow> tensor \<Rightarrow> nat \<Rightarrow> real" where
  "spec_fp y_true y_pred j =
     sum_list (map (\<lambda>i. (1 - entry y_true i j) * entry y_pred i j) [0..<nrows y_true])"

definition spec_fn :: "tensor \<Rightarrow> tensor \<Rightarrow> nat \<Rightarrow> real" where
  "spec_fn y_true y_pred j =
     sum_list (map (\<lambda>i. entry y_true i j * (1 - entry y_pred i j)) [0..<nrows y_true])"

definition spec_gp :: "tensor \<Rightarrow> nat \<Rightarrow> real" where
  "spec_gp y_true j = sum_list (map (\<lambda>i. entry y_true i j) [0..<nrows y_true])"

text \<open>\<open>p = tp/(tp+fp+\<epsilon>)\<close>, \<open>r = tp/(tp+fn+\<epsilon>)\<close> and \<open>f1 = 2pr/(p+r+\<epsilon>)\<close>.\<close>

definition spec_p :: "real \<Rightarrow> tensor \<Rightarrow> tensor \<Rightarrow> nat \<Rightarrow> tfloat" where
  "spec_p eps y_true y_pred j =
     tf_div (Finite (spec_tp y_true y_pred j))
            (Finite (spec_tp y_true y_pred j + spec_fp y_true y_pred j + eps))"

definition spec_r :: "real \<Rightarrow> tensor \<Rightarrow> tensor \<Rightarrow> nat \<Rightarrow> tfloat" where
  "spec_r eps y_true y_pred j =
     tf_div (Finite (spec_tp y_true y_pred j))
            (Finite (spec_tp y_true y_pred j + spec_fn y_true y_pred j + eps))"

definition spec_f1 :: "real \<Rightarrow> tensor \<Rightarrow> tensor \<Rightarrow> nat \<Rightarrow> tfloat" where
  "spec_f1 eps y_true y_pred j =
     tf_div (tf_mul (tf_mul (Finite 2) (spec_p eps y_true y_pred j)) (spec_r eps y_true y_pred j))
            (tf_add (tf_add (spec_p eps y_true y_pred j) (spec_r eps y_true y_pred j)) (Finite eps))"

text \<open>\<open>1 - mean(f1)\<close> over the columns, the NaN columns replaced by 0.\<close>

definition spec_f1_loss :: "real \<Rightarrow> tensor \<Rightarrow> tensor \<Rightarrow> tfloat" where
  "spec_f1_loss eps y_true y_pred =
     tf_sub (Finite 1)
       (k_mean (map (\<lambda>j. nan_to_zero (spec_f1 eps y_true y_pred j)) [0..<ncols y_true]))"

text \<open>\<open>1 - \<Sum>\<^sub>c f1\<^sub>c \<sqdot> gp\<^sub>c / \<Sum> gp\<close>, as the specification writes the weighted loss.\<close>

definition spec_total_gp :: "tensor \<Rightarrow> real" where
  "spec_total_gp y_true = sum_list (map (spec_gp y_true) [0..<ncols y_true])"

definition spec_weighted_term :: "real \<Rightarrow> tensor \<Rightarrow> tensor \<Rightarrow> nat \<Rightarrow> tfloat" where
  "spec_weighted_term eps y_true y_pred j =
     tf_div (tf_mul (spec_f1 eps y_true y_pred j) (Finite (spec_gp y_true j)))
            (Finite (spec_total_gp y_true))"

definition spec_weighted_f1_loss :: "real \<Rightarrow> tensor \<Rightarrow> tensor \<Rightarrow> tfloat" where
  "spec_weighted_f1_loss eps y_true y_pred =
     tf_sub (Finite 1)
       (k_sum (map (spec_weighted_term eps y_true y_pred) [0..<ncols y_true]))"

text \<open>The same with each term that is NaN replaced by 0 before the sum, as the program
  does.\<close>

definition weighted_f1_loss_by_column :: "real \<Rightarrow> tensor \<Rightarrow> tensor \<Rightarrow> tfloat" where
  "weighted_f1_loss_by_column eps y_true y_pred =
     tf_sub (Finite 1)
       (k_sum (map (\<lambda>j. nan_to_zero (spec_weighted_term eps y_true y_pred j))
                 [0..<ncols y_true]))"

text \<open>A property of all the entries of a tensor.\<close>

definition all_entries :: "(real \<Rightarrow> bool) \<Rightarrow> tensor \<Rightarrow> bool" where
  "all_entries P t = list_all (list_all P) (rows t)"

text \<open>Labels and predictions of two samples and two columns; no sample has the first
  label.\<close>

definition example_labels :: tensor where
  "example_labels = \<lparr>ncols = 2, rows = [[0, 1], [0, 1]]\<rparr>"

definition example_predictions :: tensor where
  "example_predictions = \<lparr>ncols = 2, rows = [[3 / 10, 8 / 10], [6 / 10, 4 / 10]]\<rparr>"

text \<open>One sample and one label, which the sample does not have.\<close>

definition no_labels :: tensor where
  "no_labels = \<lparr>ncols = 1, rows = [[0]]\<rparr>"

text \<open>The real numbers that precision, recall and F1 of a column are when no
  denominator is zero.\<close>

definition p_value :: "real \<Rightarrow> tensor \<Rightarrow> tensor \<Rightarrow> nat \<Rightarrow> real" where
  "p_value eps y_true y_pred j =
     spec_tp y_true y_pred j / (spec_tp y_true y_pred j + spec_fp y_true y_pred j + eps)"

definition r_value :: "real \<Rightarrow> tensor \<Rightarrow> tensor \<Rightarrow> nat \<Rightarrow> real" where
  "r_value eps y_true y_pred j =
     spec_tp y_true y_pred j / (spec_tp y_true y_pred j + spec_fn y_true y_pred j + eps)"

definition f1_value :: "real \<Rightarrow> tensor \<Rightarrow> tensor \<Rightarrow> nat \<Rightarrow> real" where
  "f1_value eps y_true y_pred j =
     2 * p_value eps y_true y_pred j * r_value eps y_true y_pred j
       / (p_value eps y_true y_pred j + r_value eps y_true y_pred j + eps)"

text \<open>Tensors without a negative entry, of labels 0 or 1, and of probabilities.\<close>

definition nonneg :: "tensor \<Rightarrow> bool" where
  "nonneg t = all_entries (\<lambda>x. 0 \<le> x) t"

definition binary :: "tensor \<Rightarrow> bool" where
  "binary t = all_entries (\<lambda>x. x = 0 \<or> x = 1) t"

definition unit_interval :: "tensor \<Rightarrow> bool" where
  "unit_interval t = all_entries (\<lambda>x. 0 \<le> x \<and> x \<le> 1) t"

text \<open>One sample and no column.\<close>

definition no_columns :: tensor where
  "no_columns = \<lparr>ncols = 0, rows = [[]]\<rparr>"

text \<open>The combined loss as the specification words it: the average of
  \<^verbatim>\<open>weighted_f1_loss\<close> on the column ranges of genres, instruments and moods.\<close>

definition wf1_loss_columns :: "real \<Rightarrow> tensor \<Rightarrow> tensor \<Rightarrow> tfloat" where
  "wf1_loss_columns eps y_true y_pred =
     tf_div
       (tf_add
          (tf_add (weighted_f1_loss eps (slice_cols 0 90 y_true) (slice_cols 0 90 y_pred))
                  (weighted_f1_loss eps (slice_cols 90 202 y_true) (slice_cols 90 202 y_pred)))
          (weighted_f1_loss eps (slice_cols 202 248 y_true) (slice_cols 202 248 y_pred)))
       (Finite 3)"

text \<open>A batch of one sample that has all of \<open>n\<close> labels, and a batch of no sample.\<close>

definition ones_row :: "nat \<Rightarrow> tensor" where
  "ones_row n = \<lparr>ncols = n, rows = [replicate n 1]\<rparr>"

definition no_rows :: "nat \<Rightarrow> tensor" where
  "no_rows n = \<lparr>ncols = n, rows = []\<rparr>"







text \<open>The table that holds the columns \<open>lo\<close> to \<open>hi - 1\<close> of a table.\<close>

definition sub_frame :: "frame \<Rightarrow> nat \<Rightarrow> nat \<Rightarrow> frame" where
  "sub_frame data lo hi =
     \<lparr>frame_index = frame_index data, frame_ncols = hi - lo,
      frame_rows = map (slice_list lo hi) (frame_rows data)\<rparr>"

text \<open>A table of two samples and 289 columns, the cell of column \<open>j\<close> being \<open>j\<close> for
  the first sample and \<open>0\<close> for the second.\<close>

definition example_table :: frame where
  "example_table =
     \<lparr>frame_index = [11, 12], frame_ncols = 289,
      frame_rows = [map real [0..<289], replicate 289 0]\<rparr>"

section \<open>The feature splitter\<close>

lemma map_nth_upt_slice:
  "hi \<le> length r \<Longrightarrow> map (\<lambda>j. r ! j) [lo..<hi] = slice_list lo hi r"
  unfolding slice_list_def
  by (rule nth_equalityI) (auto simp: min_def)

lemma iloc_cols_ok:
  assumes "hi \<le> frame_ncols data"
  shows "iloc_cols data [lo..<hi] =
    Inr \<lparr>frame_index = frame_index data, frame_ncols = hi - lo,
         frame_rows = map (\<lambda>r. map (\<lambda>j. r ! j) [lo..<hi]) (frame_rows data)\<rparr>"
  using assms by (auto simp: iloc_cols_def list_all_iff)

lemma wf_rows_slice:
  assumes "wf_frame data" "hi \<le> frame_ncols data"
  shows "map (\<lambda>r. map (\<lambda>j. r ! j) [lo..<hi]) (frame_rows data)
       = map (slice_list lo hi) (frame_rows data)"
  using assms by (auto simp: wf_frame_def list_all_iff map_nth_upt_slice)

lemma iloc_cols_sub_frame:
  assumes "wf_frame data" "hi \<le> frame_ncols data"
  shows "iloc_cols data [lo..<hi] = Inr (sub_frame data lo hi)"
  using assms by (simp add: iloc_cols_ok wf_rows_slice sub_frame_def)

lemma splitter_value:
  assumes wf: "wf_frame data" and n: "289 \<le> frame_ncols data"
  shows "splitter data =
    Inr [sub_frame data 0 90, sub_frame data 90 202, sub_frame data 202 248,
         sub_frame data 248 266, sub_frame data 266 281, sub_frame data 281 289]"
proof -
  have a: "\<And>lo hi. hi \<le> 289 \<Longrightarrow> iloc_cols data [lo..<hi] = Inr (sub_frame data lo hi)"
    using wf n by (simp add: iloc_cols_sub_frame)
  show ?thesis
    by (simp add: splitter_def a del: upt_rec_numeral)
qed

lemma wf_sub_frame:
  assumes "wf_frame data" "hi \<le> frame_ncols data"
  shows "wf_frame (sub_frame data lo hi)"
  using assms by (auto simp: wf_frame_def sub_frame_def list_all_iff slice_list_def)

text \<open>
  Claim C7.  For a table of \<open>N\<close> rows and at least 289 columns, \<^verbatim>\<open>splitter\<close> returns six
  tables.  Each has the index of the input and its \<open>N\<close> rows in the same order, cut to
  the columns \<open>[0,90)\<close>, \<open>[90,202)\<close>, \<open>[202,248)\<close>, \<open>[248,266)\<close>, \<open>[266,281)\<close> and
  \<open>[281,289)\<close>; the numbers of columns are 90, 112, 46, 18, 15 and 8, which sum to 289.
  The function only reads its argument: the result is a new list of new tables.
\<close>

theorem splitter_six_tables:
  assumes wf: "wf_frame data" and n: "289 \<le> frame_ncols data"
  shows "\<exists>x_data. splitter data = Inr x_data
     \<and> length x_data = 6
     \<and> map frame_ncols x_data = [90, 112, 46, 18, 15, 8]
     \<and> sum_list (map frame_ncols x_data) = 289
     \<and> map frame_index x_data = replicate 6 (frame_index data)
     \<and> map frame_rows x_data =
         map (\<lambda>(lo, hi). map (slice_list lo hi) (frame_rows data))
           [(0, 90), (90, 202), (202, 248), (248, 266), (266, 281), (281, 289)]
     \<and> list_all (\<lambda>x. length (frame_rows x) = length (frame_rows data)) x_data"
  by (simp add: splitter_value [OF wf n] sub_frame_def numeral_eq_Suc)

theorem splitter_six_tables_witness:
  "wf_frame example_table \<and> 289 \<le> frame_ncols example_table
   \<and> (\<exists>x_data. splitter example_table = Inr x_data
        \<and> map frame_ncols x_data = [90, 112, 46, 18, 15, 8]
        \<and> map frame_index x_data = replicate 6 [11, 12]
        \<and> list_all (\<lambda>x. length (frame_rows x) = 2) x_data)"
proof -
  have wf: "wf_frame example_table"
    by (simp add: example_table_def wf_frame_def)
  have n: "289 \<le> frame_ncols example_table"
    by (simp add: example_table_def)
  from splitter_six_tables [OF wf n] obtain x_data where
    "splitter example_table = Inr x_data"
    "map frame_ncols x_data = [90, 112, 46, 18, 15, 8]"
    "map frame_index x_data = replicate 6 (frame_index example_table)"
    "list_all (\<lambda>x. length (frame_rows x) = length (frame_rows example_table)) x_data"
    by auto
  then show ?thesis
    using wf n by (simp add: example_table_def numeral_2_eq_2)
qed

section \<open>The residual fusion block\<close>

lemma upt_0_3: "[0..<3] = [0, 1, 2]"
  by (simp add: numeral_3_eq_3 upt_rec)

lemma dense_units_floor: "dense_units w1 w2 = nat \<lfloor>1.2 * real (w1 + w2)\<rfloor>"
  by (simp add: dense_units_def py_int_def mult.commute)

lemma dense_units_div: "dense_units w1 w2 = (6 * (w1 + w2)) div 5"
proof -
  have "real (w1 + w2) * 1.2 = real (6 * (w1 + w2)) / real 5" by simp
  then have "\<lfloor>real (w1 + w2) * 1.2\<rfloor> = int ((6 * (w1 + w2)) div 5)"
    by (simp only: floor_divide_of_nat_eq)
  then show ?thesis by (simp add: dense_units_def py_int_def)
qed

lemma first_part_loop_map:
  "\<forall>i \<in> set is. i + 3 < length inputs \<Longrightarrow>
   first_part_loop inputs is acc = Inr (acc @ map (first_layer inputs) is)"
  by (induction "is" arbitrary: acc) (auto simp: item_def first_layer_def)

lemma last_part_loop_map:
  "is_activation known act \<Longrightarrow> \<forall>i \<in> set is. i < length inputs \<Longrightarrow>
   last_part_loop known inputs act sp is acc = Inr (acc @ map (last_layer inputs act sp) is)"
  by (induction "is" arbitrary: acc)
     (auto simp: item_def last_layer_def add_layers_def activation_layer_def)

lemma last_part_loop_unknown:
  "\<not> is_activation known act \<Longrightarrow> is \<noteq> [] \<Longrightarrow> \<forall>i \<in> set is. i < length inputs \<Longrightarrow>
   last_part_loop known inputs act sp is acc = Inl ValueError"
  by (cases "is") (auto simp: item_def add_layers_def activation_layer_def)

lemma first_part_value:
  assumes "6 \<le> length inputs"
  shows "first_part_loop inputs [0..<3] [] = Inr (map (first_layer inputs) [0..<3])"
proof -
  have "\<forall>i \<in> set [0..<3]. i + 3 < length inputs" using assms by auto
  then show ?thesis by (simp only: first_part_loop_map append_Nil)
qed

lemma block_value:
  assumes "6 \<le> length inputs" and a: "is_activation known act"
  shows "block known inputs act =
    Inr (map (last_layer inputs act (second_part_of (map (first_layer inputs) [0..<3]))) [0..<3])"
proof -
  have 2: "\<forall>i \<in> set [0..<3]. i < length inputs" using assms by auto
  show ?thesis
    unfolding block_def
    by (simp only: first_part_value [OF assms(1)] last_part_loop_map [OF a 2] sum.case
          append_Nil)
qed

lemma block_unknown_activation:
  assumes "6 \<le> length inputs" and a: "\<not> is_activation known act"
  shows "block known inputs act = Inl ValueError"
proof -
  have 2: "\<forall>i \<in> set [0..<3]. i < length inputs" using assms by auto
  have 3: "[0..<3] \<noteq> []" by simp
  show ?thesis
    unfolding block_def
    by (simp only: first_part_value [OF assms(1)] last_part_loop_unknown [OF a 3 2] sum.case)
qed

text \<open>
  Claim C2, as the program has it.  In step 1 of the block, for each \<open>i\<close> in \<open>{0,1,2}\<close>
  the dense layer applied to the concatenation of \<open>inputs[i]\<close> and \<open>inputs[i+3]\<close> has
  ReLU activation and width \<open>int(1.2 \<times> (width_i + width_{i+3}))\<close>: the product is
  truncated, not rounded to the nearest integer.  The width is 129 for a summed width
  of 108 and 64 for a summed width of 54.
\<close>

theorem first_part_width_truncated:
  assumes "6 \<le> length inputs" and "i < 3"
  shows "\<exists>first_part. first_part_loop inputs [0..<3] [] = Inr first_part
     \<and> length first_part = 3
     \<and> first_part ! i =
         Dense (nat \<lfloor>1.2 * real (width (inputs ! i) + width (inputs ! (i + 3)))\<rfloor>)
           (Some ''relu'') (Concatenate [inputs ! i, inputs ! (i + 3)])
     \<and> dense_units 90 18 = 129 \<and> dense_units 46 8 = 64"
proof -
  have "map (first_layer inputs) [0..<3] ! i = first_layer inputs i"
    using assms(2) by simp
  then have "map (first_layer inputs) [0..<3] ! i =
      Dense (nat \<lfloor>1.2 * real (width (inputs ! i) + width (inputs ! (i + 3)))\<rfloor>)
        (Some ''relu'') (Concatenate [inputs ! i, inputs ! (i + 3)])"
    by (simp only: first_layer_def dense_units_floor)
  moreover have "dense_units 90 18 = 129" "dense_units 46 8 = 64"
    by (simp_all add: dense_units_div)
  ultimately show ?thesis
    by (simp add: first_part_value [OF assms(1)])
qed

theorem first_part_width_truncated_witness:
  "6 \<le> length input_layers \<and> (0::nat) < 3
   \<and> (\<exists>first_part. first_part_loop input_layers [0..<3] [] = Inr first_part
        \<and> first_part ! 0 = Dense 129 (Some ''relu'') (Concatenate [Input 90, Input 18]))"
proof -
  have len: "6 \<le> length input_layers"
    by (simp add: input_layers_def)
  from first_part_width_truncated [OF len, of 0] obtain first_part where
    "first_part_loop input_layers [0..<3] [] = Inr first_part"
    "first_part ! 0 =
       Dense (nat \<lfloor>1.2 * real (width (input_layers ! 0) + width (input_layers ! (0 + 3)))\<rfloor>)
         (Some ''relu'') (Concatenate [input_layers ! 0, input_layers ! (0 + 3)])"
    by auto
  moreover have "nat \<lfloor>1.2 * real (width (input_layers ! 0) + width (input_layers ! (0 + 3)))\<rfloor> = 129"
    by (simp add: dense_units_floor [symmetric] dense_units_div input_layers_def)
  ultimately show ?thesis
    using len by (simp add: input_layers_def)
qed

text \<open>The claim as the specification words it fails on the six inputs of the model: the
  first part has the widths 129, 152 and 64, where rounding gives 130 and 65 for the
  first and the third.\<close>

theorem first_part_width_round_counterexample:
  "first_part_loop input_layers [0..<3] [] =
     Inr [Dense 129 (Some ''relu'') (Concatenate [Input 90, Input 18]),
          Dense 152 (Some ''relu'') (Concatenate [Input 112, Input 15]),
          Dense 64 (Some ''relu'') (Concatenate [Input 46, Input 8])]
   \<and> round_units 90 18 = 130 \<and> round_units 112 15 = 152 \<and> round_units 46 8 = 65"
  by (simp add: input_layers_def item_def dense_units_div round_units_def round_def upt_0_3)

text \<open>
  Claim C8.  Let \<open>act\<close> name an activation function.  For each \<open>i\<close> in \<open>{0,1,2}\<close> the
  \<open>i\<close>-th output of the block has the width of its \<open>i\<close>-th input.  It is the activation
  \<open>act\<close> applied to the sum of the original \<open>inputs[i]\<close> and a dense layer of that width;
  the addition comes before the activation.  The dense layers of the three outputs read
  one shared tensor: the dropout of rate \<open>0.1\<close> on the ReLU of a dense layer of width 400
  on the concatenation of the three tensors of the first part.  When \<open>act\<close> names no
  activation function the block raises \<^verbatim>\<open>ValueError\<close>.
\<close>

theorem block_adds_before_activation:
  assumes "6 \<le> length inputs"
  shows "(is_activation known act \<longrightarrow>
      (\<exists>outs. block known inputs act = Inr outs
         \<and> length outs = 3
         \<and> (\<forall>i<3. outs ! i =
                Activation act
                  (Add [inputs ! i,
                        Dense (width (inputs ! i)) None
                          (Dropout 0.1
                             (Activation ''relu''
                                (Dense 400 None
                                   (Concatenate
                                      [Dense (dense_units (width (inputs ! 0)) (width (inputs ! 3)))
                                         (Some ''relu'') (Concatenate [inputs ! 0, inputs ! 3]),
                                       Dense (dense_units (width (inputs ! 1)) (width (inputs ! 4)))
                                         (Some ''relu'') (Concatenate [inputs ! 1, inputs ! 4]),
                                       Dense (dense_units (width (inputs ! 2)) (width (inputs ! 5)))
                                         (Some ''relu'') (Concatenate [inputs ! 2, inputs ! 5])]))))])
              \<and> width (outs ! i) = width (inputs ! i))))
     \<and> (\<not> is_activation known act \<longrightarrow> block known inputs act = Inl ValueError)"
proof (intro conjI impI)
  assume a: "is_activation known act"
  show "\<exists>outs. block known inputs act = Inr outs
         \<and> length outs = 3
         \<and> (\<forall>i<3. outs ! i =
                Activation act
                  (Add [inputs ! i,
                        Dense (width (inputs ! i)) None
                          (Dropout 0.1
                             (Activation ''relu''
                                (Dense 400 None
                                   (Concatenate
                                      [Dense (dense_units (width (inputs ! 0)) (width (inputs ! 3)))
                                         (Some ''relu'') (Concatenate [inputs ! 0, inputs ! 3]),
                                       Dense (dense_units (width (inputs ! 1)) (width (inputs ! 4)))
                                         (Some ''relu'') (Concatenate [inputs ! 1, inputs ! 4]),
                                       Dense (dense_units (width (inputs ! 2)) (width (inputs ! 5)))
                                         (Some ''relu'') (Concatenate [inputs ! 2, inputs ! 5])]))))])
              \<and> width (outs ! i) = width (inputs ! i))"
  proof -
    have fp: "map (first_layer inputs) [0..<3] =
        [Dense (dense_units (width (inputs ! 0)) (width (inputs ! 3)))
           (Some ''relu'') (Concatenate [inputs ! 0, inputs ! 3]),
         Dense (dense_units (width (inputs ! 1)) (width (inputs ! 4)))
           (Some ''relu'') (Concatenate [inputs ! 1, inputs ! 4]),
         Dense (dense_units (width (inputs ! 2)) (width (inputs ! 5)))
           (Some ''relu'') (Concatenate [inputs ! 2, inputs ! 5])]"
      by (simp add: upt_0_3 first_layer_def)
    show ?thesis
      unfolding block_value [OF assms a] fp
      by (simp add: last_layer_def second_part_of_def)
  qed
next
  assume "\<not> is_activation known act"
  then show "block known inputs act = Inl ValueError"
    by (rule block_unknown_activation [OF assms])
qed

theorem block_adds_before_activation_witness:
  "(\<exists>outs. block (\<lambda>name. False) input_layers ''relu'' = Inr outs
       \<and> map width outs = [90, 112, 46]
       \<and> outs ! 2 =
           Activation ''relu''
             (Add [Input 46,
                   Dense 46 None
                     (Dropout 0.1
                        (Activation ''relu''
                           (Dense 400 None
                              (Concatenate
                                 [Dense 129 (Some ''relu'') (Concatenate [Input 90, Input 18]),
                                  Dense 152 (Some ''relu'') (Concatenate [Input 112, Input 15]),
                                  Dense 64 (Some ''relu'') (Concatenate [Input 46, Input 8])]))))]))
   \<and> block (\<lambda>name. False) input_layers ''softmax'' = Inl ValueError"
proof -
  have len: "6 \<le> length input_layers"
    by (simp add: input_layers_def)
  have r: "is_activation (\<lambda>name. False) ''relu''"
    and m: "\<not> is_activation (\<lambda>name. False) ''softmax''"
    by (simp_all add: is_activation_def)
  from block_adds_before_activation [OF len, of "\<lambda>name. False" "''relu''"] r obtain outs where
    o: "block (\<lambda>name. False) input_layers ''relu'' = Inr outs" "length outs = 3"
    "\<forall>i<3. width (outs ! i) = width (input_layers ! i)"
    "\<forall>i<3. outs ! i =
        Activation ''relu''
          (Add [input_layers ! i,
                Dense (width (input_layers ! i)) None
                  (Dropout 0.1
                     (Activation ''relu''
                        (Dense 400 None
                           (Concatenate
                              [Dense (dense_units (width (input_layers ! 0)) (width (input_layers ! 3)))
                                 (Some ''relu'') (Concatenate [input_layers ! 0, input_layers ! 3]),
                               Dense (dense_units (width (input_layers ! 1)) (width (input_layers ! 4)))
                                 (Some ''relu'') (Concatenate [input_layers ! 1, input_layers ! 4]),
                               Dense (dense_units (width (input_layers ! 2)) (width (input_layers ! 5)))
                                 (Some ''relu'') (Concatenate [input_layers ! 2, input_layers ! 5])]))))])"
    by blast
  have "map width outs = map (\<lambda>i. width (input_layers ! i)) [0..<3]"
    using o(2,3) by (intro nth_equalityI) auto
  then have w: "map width outs = [90, 112, 46]"
    by (simp add: upt_0_3 input_layers_def)
  have t: "outs ! 2 =
           Activation ''relu''
             (Add [Input 46,
                   Dense 46 None
                     (Dropout 0.1
                        (Activation ''relu''
                           (Dense 400 None
                              (Concatenate
                                 [Dense 129 (Some ''relu'') (Concatenate [Input 90, Input 18]),
                                  Dense 152 (Some ''relu'') (Concatenate [Input 112, Input 15]),
                                  Dense 64 (Some ''relu'') (Concatenate [Input 46, Input 8])]))))])"
    using o(4) by (simp add: input_layers_def dense_units_div)
  have u: "block (\<lambda>name. False) input_layers ''softmax'' = Inl ValueError"
    using block_adds_before_activation [OF len, of "\<lambda>name. False" "''softmax''"] m by simp
  show ?thesis using o(1) w t u by simp
qed

section \<open>The losses, column by column\<close>

lemma same_shape_one_minus_left: "same_shape a b \<Longrightarrow> same_shape (one_minus a) b"
  by (simp add: same_shape_def one_minus_def wf_tensor_def nrows_def list_all_iff)

lemma same_shape_one_minus_right: "same_shape a b \<Longrightarrow> same_shape a (one_minus b)"
  by (simp add: same_shape_def one_minus_def wf_tensor_def nrows_def list_all_iff)

lemma entry_one_minus:
  "wf_tensor a \<Longrightarrow> i < nrows a \<Longrightarrow> j < ncols a \<Longrightarrow> entry (one_minus a) i j = 1 - entry a i j"
  by (simp add: entry_def one_minus_def wf_tensor_def nrows_def list_all_iff)

lemma nrows_one_minus: "nrows (one_minus a) = nrows a"
  by (simp add: nrows_def one_minus_def)

lemma ncols_one_minus: "ncols (one_minus a) = ncols a"
  by (simp add: one_minus_def)

lemma column_of_product:
  assumes "same_shape a b" "j < ncols a"
  shows "map (\<lambda>r. r ! j) (map2 (map2 (*)) (rows a) (rows b))
       = map (\<lambda>i. entry a i j * entry b i j) [0..<nrows a]"
proof (rule nth_equalityI)
  show "length (map (\<lambda>r. r ! j) (map2 (map2 (*)) (rows a) (rows b)))
      = length (map (\<lambda>i. entry a i j * entry b i j) [0..<nrows a])"
    using assms by (simp add: same_shape_def nrows_def)
next
  fix i assume "i < length (map (\<lambda>r. r ! j) (map2 (map2 (*)) (rows a) (rows b)))"
  then have i: "i < length (rows a)" "i < length (rows b)" by simp_all
  then have "length (rows a ! i) = ncols a" "length (rows b ! i) = ncols a"
    using assms(1) by (auto simp: same_shape_def wf_tensor_def list_all_iff)
  then show "map (\<lambda>r. r ! j) (map2 (map2 (*)) (rows a) (rows b)) ! i
      = map (\<lambda>i. entry a i j * entry b i j) [0..<nrows a] ! i"
    using i assms(2) by (simp add: entry_def nrows_def)
qed

lemma k_sum0_t_mul:
  assumes "same_shape a b"
  shows "k_sum0 (t_mul a b)
       = map (\<lambda>j. sum_list (map (\<lambda>i. entry a i j * entry b i j) [0..<nrows a])) [0..<ncols a]"
  unfolding k_sum0_def t_mul_def
  using column_of_product [OF assms] by simp

lemma true_positives_spec:
  "same_shape y_true y_pred \<Longrightarrow>
   true_positives y_true y_pred = map (spec_tp y_true y_pred) [0..<ncols y_true]"
  by (simp add: true_positives_def k_sum0_t_mul spec_tp_def)

lemma false_positives_spec:
  assumes "same_shape y_true y_pred"
  shows "false_positives y_true y_pred = map (spec_fp y_true y_pred) [0..<ncols y_true]"
proof -
  have wf: "wf_tensor y_true" using assms by (simp add: same_shape_def)
  have e: "\<And>i j. i < nrows y_true \<Longrightarrow> j < ncols y_true \<Longrightarrow>
      entry (one_minus y_true) i j = 1 - entry y_true i j"
    using entry_one_minus [OF wf] .
  have "k_sum0 (t_mul (one_minus y_true) y_pred)
      = map (\<lambda>j. sum_list (map (\<lambda>i. entry (one_minus y_true) i j * entry y_pred i j)
                              [0..<nrows y_true])) [0..<ncols y_true]"
    using k_sum0_t_mul [OF same_shape_one_minus_left [OF assms]]
    by (simp add: nrows_one_minus ncols_one_minus)
  also have "\<dots> = map (spec_fp y_true y_pred) [0..<ncols y_true]"
  proof (rule map_cong [OF refl])
    fix j assume "j \<in> set [0..<ncols y_true]"
    then have j: "j < ncols y_true" by simp
    have m: "map (\<lambda>i. entry (one_minus y_true) i j * entry y_pred i j) [0..<nrows y_true]
        = map (\<lambda>i. (1 - entry y_true i j) * entry y_pred i j) [0..<nrows y_true]"
      by (rule map_cong [OF refl]) (simp add: e j)
    show "sum_list (map (\<lambda>i. entry (one_minus y_true) i j * entry y_pred i j)
        [0..<nrows y_true]) = spec_fp y_true y_pred j"
      by (simp only: spec_fp_def m)
  qed
  finally show ?thesis by (simp add: false_positives_def)
qed

lemma false_negatives_spec:
  assumes "same_shape y_true y_pred"
  shows "false_negatives y_true y_pred = map (spec_fn y_true y_pred) [0..<ncols y_true]"
proof -
  have wf: "wf_tensor y_pred" and n: "nrows y_pred = nrows y_true" "ncols y_pred = ncols y_true"
    using assms by (simp_all add: same_shape_def)
  have e: "\<And>i j. i < nrows y_true \<Longrightarrow> j < ncols y_true \<Longrightarrow>
      entry (one_minus y_pred) i j = 1 - entry y_pred i j"
    using entry_one_minus [OF wf] n by simp
  have "k_sum0 (t_mul y_true (one_minus y_pred))
      = map (\<lambda>j. sum_list (map (\<lambda>i. entry y_true i j * entry (one_minus y_pred) i j)
                              [0..<nrows y_true])) [0..<ncols y_true]"
    using k_sum0_t_mul [OF same_shape_one_minus_right [OF assms]] by simp
  also have "\<dots> = map (spec_fn y_true y_pred) [0..<ncols y_true]"
  proof (rule map_cong [OF refl])
    fix j assume "j \<in> set [0..<ncols y_true]"
    then have j: "j < ncols y_true" by simp
    have m: "map (\<lambda>i. entry y_true i j * entry (one_minus y_pred) i j) [0..<nrows y_true]
        = map (\<lambda>i. entry y_true i j * (1 - entry y_pred i j)) [0..<nrows y_true]"
      by (rule map_cong [OF refl]) (simp add: e j)
    show "sum_list (map (\<lambda>i. entry y_true i j * entry (one_minus y_pred) i j)
        [0..<nrows y_true]) = spec_fn y_true y_pred j"
      by (simp only: spec_fn_def m)
  qed
  finally show ?thesis by (simp add: false_negatives_def)
qed

lemma k_sum0_spec:
  assumes "wf_tensor y_true"
  shows "k_sum0 y_true = map (spec_gp y_true) [0..<ncols y_true]"
proof -
  have "\<And>j. map (\<lambda>r. r ! j) (rows y_true) = map (\<lambda>i. entry y_true i j) [0..<nrows y_true]"
    by (rule nth_equalityI) (simp_all add: nrows_def entry_def)
  then show ?thesis by (simp add: k_sum0_def spec_gp_def)
qed

lemma precision_spec:
  "same_shape y_true y_pred \<Longrightarrow>
   precision eps y_true y_pred = map (spec_p eps y_true y_pred) [0..<ncols y_true]"
  by (simp add: precision_def precision_denominator_def v_div_def true_positives_spec
        false_positives_spec map2_map_map spec_p_def)

lemma recall_spec:
  "same_shape y_true y_pred \<Longrightarrow>
   recall eps y_true y_pred = map (spec_r eps y_true y_pred) [0..<ncols y_true]"
  by (simp add: recall_def recall_denominator_def v_div_def true_positives_spec
        false_negatives_spec map2_map_map spec_r_def)

lemma f1_vector_spec:
  "same_shape y_true y_pred \<Longrightarrow>
   f1_vector eps y_true y_pred = map (spec_f1 eps y_true y_pred) [0..<ncols y_true]"
  by (simp add: f1_vector_def f1_denominator_def precision_spec recall_spec map2_map_map
        spec_f1_def)

lemma weighted_f1_raw_spec:
  assumes "same_shape y_true y_pred"
  shows "weighted_f1_raw eps y_true y_pred
     = map (spec_weighted_term eps y_true y_pred) [0..<ncols y_true]"
proof -
  have wf: "wf_tensor y_true" using assms by (simp add: same_shape_def)
  have h: "map2 tf_mul (map (spec_f1 eps y_true y_pred) [0..<ncols y_true])
          (map Finite (map (spec_gp y_true) [0..<ncols y_true]))
      = map (\<lambda>j. tf_mul (spec_f1 eps y_true y_pred j) (Finite (spec_gp y_true j)))
          [0..<ncols y_true]"
    by (simp only: map_map map2_map_map comp_def)
  show ?thesis
    unfolding weighted_f1_raw_def Let_def f1_vector_spec [OF assms] k_sum0_spec [OF wf]
    unfolding h
    by (simp add: spec_weighted_term_def spec_total_gp_def comp_def)
qed

lemma f1_loss_spec:
  "same_shape y_true y_pred \<Longrightarrow> f1_loss eps y_true y_pred = spec_f1_loss eps y_true y_pred"
  by (simp add: f1_loss_def f1_columns_def where_nan_zero_def f1_vector_spec spec_f1_loss_def comp_def)

lemma weighted_f1_loss_spec:
  "same_shape y_true y_pred \<Longrightarrow>
   weighted_f1_loss eps y_true y_pred = weighted_f1_loss_by_column eps y_true y_pred"
  by (simp add: weighted_f1_loss_def weighted_f1_columns_def where_nan_zero_def
        weighted_f1_raw_spec weighted_f1_loss_by_column_def comp_def)

lemma all_entries_entry:
  "all_entries P t \<Longrightarrow> wf_tensor t \<Longrightarrow> i < nrows t \<Longrightarrow> j < ncols t \<Longrightarrow> P (entry t i j)"
proof -
  assume a: "all_entries P t" "wf_tensor t" "i < nrows t" "j < ncols t"
  then have r: "rows t ! i \<in> set (rows t)" by (simp add: nrows_def)
  then have "length (rows t ! i) = ncols t" "list_all P (rows t ! i)"
    using a by (simp_all add: all_entries_def wf_tensor_def list_all_iff)
  then show ?thesis using a(4) by (simp add: entry_def list_all_length)
qed

lemma sum_list_upt_nonneg:
  "(\<And>i. i < n \<Longrightarrow> 0 \<le> f i) \<Longrightarrow> 0 \<le> sum_list (map f [0..<n] :: real list)"
  by (rule sum_list_nonneg) auto

lemma sum_list_upt_zero:
  "(\<And>i. i < n \<Longrightarrow> f i = 0) \<Longrightarrow> sum_list (map f [0..<n] :: real list) = 0"
  by (induction n) auto

lemma sum_list_upt_mono:
  "(\<And>i. i < n \<Longrightarrow> f i \<le> g i) \<Longrightarrow>
   sum_list (map f [0..<n] :: real list) \<le> sum_list (map g [0..<n])"
  by (induction n) (auto intro: add_mono)

lemma sum_list_upt_strict_mono:
  "0 < n \<Longrightarrow> (\<And>i. i < n \<Longrightarrow> f i < g i) \<Longrightarrow>
   sum_list (map f [0..<n] :: real list) < sum_list (map g [0..<n])"
proof (induction n)
  case 0
  then show ?case by simp
next
  case (Suc n)
  show ?case
  proof (cases "n = 0")
    case True
    then show ?thesis using Suc.prems(2) [of 0] by simp
  next
    case False
    then have "sum_list (map f [0..<n]) < sum_list (map g [0..<n])"
      using Suc by simp
    moreover have "f n < g n" using Suc.prems(2) by simp
    ultimately show ?thesis by simp
  qed
qed

lemma sum_list_upt_const: "sum_list (map (\<lambda>i. c) [0..<n] :: real list) = real n * c"
  by (induction n) (auto simp: algebra_simps)

lemma sum_list_upt_add:
  "sum_list (map f [0..<n] :: real list) + sum_list (map g [0..<n])
     = sum_list (map (\<lambda>i. f i + g i) [0..<n])"
  by (simp add: sum_list_addf)

lemma sum_list_upt_cong:
  "(\<And>i. i < n \<Longrightarrow> f i = g i) \<Longrightarrow>
   sum_list (map f [0..<n] :: real list) = sum_list (map g [0..<n])"
  by (rule arg_cong [where f = sum_list], rule map_cong [OF refl]) simp

lemma tp_plus_fp:
  "spec_tp y_true y_pred j + spec_fp y_true y_pred j
     = sum_list (map (\<lambda>i. entry y_pred i j) [0..<nrows y_true])"
  unfolding spec_tp_def spec_fp_def sum_list_upt_add
  by (rule sum_list_upt_cong) (simp add: algebra_simps)

lemma tp_plus_fn:
  "spec_tp y_true y_pred j + spec_fn y_true y_pred j = spec_gp y_true j"
  unfolding spec_tp_def spec_fn_def sum_list_upt_add spec_gp_def
  by (rule sum_list_upt_cong) (simp add: algebra_simps)

lemma tf_div_Finite: "y \<noteq> 0 \<Longrightarrow> tf_div (Finite x) (Finite y) = Finite (x / y)"
  by simp

lemma k_sum_Finite: "k_sum (map Finite xs) = Finite (sum_list xs)"
  by (induction xs) (simp_all add: k_sum_def)

lemma f1_real_bounds:
  fixes p r eps :: real
  assumes "0 \<le> p" "p \<le> 1" "0 \<le> r" "r \<le> 1" "0 < eps"
  shows "0 \<le> 2 * p * r / (p + r + eps)" "2 * p * r / (p + r + eps) \<le> 1"
proof -
  have d: "0 < p + r + eps" using assms by simp
  show "0 \<le> 2 * p * r / (p + r + eps)"
    using assms d by simp
  have "p * r \<le> p" using mult_left_mono [of r 1 p] assms by simp
  moreover have "p * r \<le> r" using mult_right_mono [of p 1 r] assms by simp
  ultimately have "2 * p * r \<le> p + r + eps" using assms by simp
  then show "2 * p * r / (p + r + eps) \<le> 1"
    using d by simp
qed

lemma f1_real_perfect:
  fixes c eps :: real
  assumes c: "1 \<le> c" and e: "0 < eps"
  defines "p \<equiv> c / (c + eps)"
  shows "1 - 2 * eps \<le> 2 * p * p / (p + p + eps)" "2 * p * p / (p + p + eps) < 1"
proof -
  have ce: "0 < c + eps" using c e by simp
  have p0: "0 < p" using c e by (simp add: p_def)
  have p1: "p < 1" using c e by (simp add: p_def)
  have "1 - p = eps / (c + eps)" using ce by (simp add: p_def field_simps)
  also have "\<dots> \<le> eps / 1" using c e by (intro divide_left_mono) auto
  finally have q: "1 - p \<le> eps" by simp
  have half: "1 \<le> 2 * p + 2 * eps"
  proof (cases "1 / 2 \<le> eps")
    case True
    then show ?thesis using p0 by simp
  next
    case False
    then have "c + eps \<le> 2 * c" using c by simp
    then have "1 / 2 \<le> p" using ce unfolding p_def by (simp add: field_simps)
    then show ?thesis using e by simp
  qed
  have d: "0 < p + p + eps" using p0 e by simp
  have a: "2 * p * (1 - p) \<le> 2 * p * eps"
    using q p0 by (intro mult_left_mono) auto
  have b: "eps * 1 \<le> eps * (2 * p + 2 * eps)"
    using half e by (intro mult_left_mono) auto
  have "(1 - 2 * eps) * (p + p + eps) \<le> 2 * p * p"
    using a b by (simp add: algebra_simps)
  then show "1 - 2 * eps \<le> 2 * p * p / (p + p + eps)"
    using d by (simp add: pos_le_divide_eq)
  have "p * p < p * 1" using p0 p1 by (intro mult_strict_left_mono) auto
  then have "2 * p * p < p + p + eps" using e by simp
  then show "2 * p * p / (p + p + eps) < 1"
    using d by simp
qed

lemma zero_column_sums:
  assumes "\<And>i. i < nrows y_true \<Longrightarrow> entry y_true i j = 0"
  shows "spec_tp y_true y_pred j = 0" "spec_fn y_true y_pred j = 0" "spec_gp y_true j = 0"
  using assms by (simp_all add: spec_tp_def spec_fn_def spec_gp_def sum_list_upt_zero)

lemma zero_column_f1:
  assumes "\<And>i. i < nrows y_true \<Longrightarrow> entry y_true i j = 0"
  shows "nan_to_zero (spec_f1 eps y_true y_pred j) = Finite 0"
  by (simp add: spec_f1_def spec_p_def spec_r_def zero_column_sums [OF assms]
        nan_to_zero_def is_nan_def)

lemma zero_column_weighted:
  assumes "\<And>i. i < nrows y_true \<Longrightarrow> entry y_true i j = 0"
  shows "nan_to_zero (spec_weighted_term eps y_true y_pred j) = Finite 0"
  by (simp add: spec_weighted_term_def spec_f1_def spec_p_def spec_r_def
        zero_column_sums [OF assms] nan_to_zero_def is_nan_def)

lemma zero_column_f1_raw:
  assumes z: "\<And>i. i < nrows y_true \<Longrightarrow> entry y_true i j = 0"
    and e: "0 < eps" and fp: "0 \<le> spec_fp y_true y_pred j"
  shows "spec_f1 eps y_true y_pred j = Finite 0"
proof -
  have "spec_fp y_true y_pred j + eps \<noteq> 0" using e fp by simp
  then show ?thesis
    using e by (simp add: spec_f1_def spec_p_def spec_r_def zero_column_sums [OF z])
qed

lemma f1_columns_nth:
  assumes "same_shape y_true y_pred" "j < ncols y_true"
  shows "f1_columns eps y_true y_pred ! j = nan_to_zero (spec_f1 eps y_true y_pred j)"
  using assms by (simp add: f1_columns_def where_nan_zero_def f1_vector_spec)

lemma weighted_f1_columns_nth:
  assumes "same_shape y_true y_pred" "j < ncols y_true"
  shows "weighted_f1_columns eps y_true y_pred ! j
       = nan_to_zero (spec_weighted_term eps y_true y_pred j)"
  using assms by (simp add: weighted_f1_columns_def where_nan_zero_def weighted_f1_raw_spec)

lemma spec_fp_nonneg:
  assumes s: "same_shape y_true y_pred" and j: "j < ncols y_true"
    and z: "\<And>i. i < nrows y_true \<Longrightarrow> entry y_true i j = 0"
    and p: "all_entries (\<lambda>x. 0 \<le> x) y_pred"
  shows "0 \<le> spec_fp y_true y_pred j"
proof -
  have wf: "wf_tensor y_pred" and n: "nrows y_pred = nrows y_true" "ncols y_pred = ncols y_true"
    using s by (simp_all add: same_shape_def)
  have "\<And>i. i < nrows y_true \<Longrightarrow> 0 \<le> entry y_pred i j"
    using all_entries_entry [OF p wf] n j by simp
  then show ?thesis
    unfolding spec_fp_def by (intro sum_list_upt_nonneg) (simp add: z)
qed

text \<open>
  Claim C4.  When a label column has no positive entry in the batch (all its entries in
  \<open>y_true\<close> are 0), the entry of that column in the vector whose mean \<^verbatim>\<open>f1_loss\<close> takes,
  and in the vector that \<^verbatim>\<open>weighted_f1_loss\<close> sums, is exactly 0 and not NaN; this
  holds for every \<open>y_pred\<close>, in particular for predictions in \<open>[0,1]\<close>.  With
  \<open>\<epsilon> > 0\<close> and predictions that are not negative, the F1 of the column is 0 already
  before the replacement of NaN.
\<close>

theorem empty_column_contributes_zero:
  assumes s: "same_shape y_true y_pred" and j: "j < ncols y_true"
    and z: "\<forall>i<nrows y_true. entry y_true i j = 0"
  shows "f1_columns eps y_true y_pred ! j = Finite 0
       \<and> weighted_f1_columns eps y_true y_pred ! j = Finite 0
       \<and> (0 < eps \<and> all_entries (\<lambda>x. 0 \<le> x) y_pred
            \<longrightarrow> f1_vector eps y_true y_pred ! j = Finite 0)"
proof -
  have z': "\<And>i. i < nrows y_true \<Longrightarrow> entry y_true i j = 0" using z by simp
  have "f1_vector eps y_true y_pred ! j = Finite 0"
    if "0 < eps" "all_entries (\<lambda>x. 0 \<le> x) y_pred"
    using zero_column_f1_raw [OF z' that(1) spec_fp_nonneg [OF s j z' that(2)]] j
    by (simp add: f1_vector_spec [OF s])
  then show ?thesis
    by (simp add: f1_columns_nth [OF s j] weighted_f1_columns_nth [OF s j]
          zero_column_f1 [OF z'] zero_column_weighted [OF z'])
qed

theorem empty_column_contributes_zero_witness:
  "f1_columns (1 / 10 ^ 7) example_labels example_predictions ! 0 = Finite 0
   \<and> weighted_f1_columns (1 / 10 ^ 7) example_labels example_predictions ! 0 = Finite 0
   \<and> f1_vector (1 / 10 ^ 7) example_labels example_predictions ! 0 = Finite 0"
proof -
  have s: "same_shape example_labels example_predictions"
    by (simp add: same_shape_def wf_tensor_def nrows_def example_labels_def
          example_predictions_def)
  have j: "0 < ncols example_labels"
    by (simp add: example_labels_def)
  have z: "\<forall>i<nrows example_labels. entry example_labels i 0 = 0"
    by (simp add: nrows_def entry_def example_labels_def less_Suc_eq numeral_2_eq_2)
  have p: "all_entries (\<lambda>x. 0 \<le> x) example_predictions"
    by (simp add: all_entries_def example_predictions_def)
  show ?thesis
    using empty_column_contributes_zero [OF s j z, of "1 / 10 ^ 7"] p by simp
qed

section \<open>The losses as formulas\<close>

lemma where_nan_zero_id: "NaN \<notin> set v \<Longrightarrow> where_nan_zero v = v"
  by (induction v) (auto simp: where_nan_zero_def nan_to_zero_def is_nan_def)

text \<open>
  Claim C5, as the program has it.  For \<open>y_true\<close> and \<open>y_pred\<close> of the same shape,
  \<^verbatim>\<open>f1_loss\<close> computes per column \<open>tp = \<Sum> y_true\<sqdot>y_pred\<close>, \<open>fp = \<Sum> (1-y_true)\<sqdot>y_pred\<close> and
  \<open>fn = \<Sum> y_true\<sqdot>(1-y_pred)\<close> over the batch, \<open>p = tp/(tp+fp+\<epsilon>)\<close>,
  \<open>r = tp/(tp+fn+\<epsilon>)\<close> and \<open>f1 = 2pr/(p+r+\<epsilon>)\<close>, replaces the NaN columns by 0 and
  returns \<open>1 - mean(f1)\<close>.  \<^verbatim>\<open>weighted_f1_loss\<close> uses the same \<open>tp\<close>, \<open>fp\<close>, \<open>fn\<close> and
  \<open>f1\<close>, and with \<open>gp\<^sub>c = \<Sum> y_true\<close> of column \<open>c\<close> it returns \<open>1\<close> minus the sum of the
  terms \<open>f1\<^sub>c\<sqdot>gp\<^sub>c / \<Sum> gp\<close>, each term that is NaN replaced by 0 before the sum.  When no
  term is NaN this is \<open>1 - \<Sum>\<^sub>c f1\<^sub>c\<sqdot>gp\<^sub>c / \<Sum> gp\<close>.
\<close>

theorem losses_by_column:
  assumes s: "same_shape y_true y_pred"
  shows "true_positives y_true y_pred = map (spec_tp y_true y_pred) [0..<ncols y_true]
     \<and> false_positives y_true y_pred = map (spec_fp y_true y_pred) [0..<ncols y_true]
     \<and> false_negatives y_true y_pred = map (spec_fn y_true y_pred) [0..<ncols y_true]
     \<and> k_sum0 y_true = map (spec_gp y_true) [0..<ncols y_true]
     \<and> f1_vector eps y_true y_pred = map (spec_f1 eps y_true y_pred) [0..<ncols y_true]
     \<and> f1_loss eps y_true y_pred = spec_f1_loss eps y_true y_pred
     \<and> weighted_f1_loss eps y_true y_pred = weighted_f1_loss_by_column eps y_true y_pred
     \<and> (NaN \<notin> set (weighted_f1_raw eps y_true y_pred) \<longrightarrow>
          weighted_f1_loss eps y_true y_pred = spec_weighted_f1_loss eps y_true y_pred)"
proof -
  have wf: "wf_tensor y_true" using s by (simp add: same_shape_def)
  have "weighted_f1_loss eps y_true y_pred = spec_weighted_f1_loss eps y_true y_pred"
    if "NaN \<notin> set (weighted_f1_raw eps y_true y_pred)"
    using where_nan_zero_id [OF that]
    by (simp add: weighted_f1_loss_def weighted_f1_columns_def spec_weighted_f1_loss_def
          weighted_f1_raw_spec [OF s])
  then show ?thesis
    by (simp add: true_positives_spec [OF s] false_positives_spec [OF s]
          false_negatives_spec [OF s] k_sum0_spec [OF wf] f1_vector_spec [OF s]
          f1_loss_spec [OF s] weighted_f1_loss_spec [OF s])
qed

lemma same_shape_no_labels: "same_shape no_labels no_labels"
  by (simp add: same_shape_def wf_tensor_def no_labels_def)

lemmas loss_defs =
  f1_loss_def f1_columns_def f1_vector_def f1_denominator_def precision_def recall_def
  precision_denominator_def recall_denominator_def true_positives_def false_positives_def
  false_negatives_def weighted_f1_loss_def weighted_f1_columns_def
  weighted_f1_raw_def v_div_def k_sum0_def t_mul_def one_minus_def
  where_nan_zero_def nan_to_zero_def is_nan_def k_sum_def k_mean_def tf_sub_def

lemmas spec_defs =
  spec_f1_loss_def spec_weighted_f1_loss_def weighted_f1_loss_by_column_def
  spec_weighted_term_def spec_total_gp_def spec_gp_def spec_f1_def spec_p_def spec_r_def
  spec_tp_def spec_fp_def spec_fn_def entry_def nrows_def
  nan_to_zero_def is_nan_def k_sum_def k_mean_def tf_sub_def

text \<open>Without the replacement the formula of the weighted loss is not what the program
  returns: for one sample without its one label, \<open>\<Sum> gp = 0\<close>, the term is \<open>0 / 0\<close>, the
  formula gives NaN and the program returns 1.\<close>

theorem weighted_formula_counterexample:
  "weighted_f1_loss (1 / 10 ^ 7) no_labels no_labels = Finite 1
   \<and> spec_weighted_f1_loss (1 / 10 ^ 7) no_labels no_labels = NaN"
proof -
  have "weighted_f1_loss (1 / 10 ^ 7) no_labels no_labels = Finite 1"
    by (simp add: loss_defs no_labels_def)
  moreover have "spec_weighted_f1_loss (1 / 10 ^ 7) no_labels no_labels = NaN"
    by (simp add: spec_defs no_labels_def)
  ultimately show ?thesis by simp
qed

lemma upt_0_2: "[0..<2] = [0, 1]"
  by (simp add: numeral_2_eq_2 upt_rec)

theorem losses_by_column_witness:
  "f1_loss (1 / 10 ^ 7) example_labels example_predictions
     = Finite (800000160000010666667 / 1280000160000010666667)
   \<and> weighted_f1_loss (1 / 10 ^ 7) example_labels example_predictions
     = Finite (320000160000010666667 / 1280000160000010666667)"
proof -
  have s: "same_shape example_labels example_predictions"
    by (simp add: same_shape_def wf_tensor_def nrows_def example_labels_def
          example_predictions_def)
  have "spec_f1_loss (1 / 10 ^ 7) example_labels example_predictions
      = Finite (800000160000010666667 / 1280000160000010666667)"
    by (simp add: spec_defs example_labels_def example_predictions_def upt_0_2)
  moreover have "weighted_f1_loss_by_column (1 / 10 ^ 7) example_labels example_predictions
      = Finite (320000160000010666667 / 1280000160000010666667)"
    by (simp add: spec_defs example_labels_def example_predictions_def upt_0_2)
  ultimately show ?thesis
    using losses_by_column [OF s, of "1 / 10 ^ 7"] by simp
qed

section \<open>The losses on labels and probabilities\<close>

lemma all_entries_mono:
  "all_entries P t \<Longrightarrow> (\<And>x. P x \<Longrightarrow> Q x) \<Longrightarrow> all_entries Q t"
  by (auto simp: all_entries_def list_all_iff)

lemma binary_nonneg: "binary t \<Longrightarrow> nonneg t"
  unfolding binary_def nonneg_def by (erule all_entries_mono) auto

lemma unit_interval_nonneg: "unit_interval t \<Longrightarrow> nonneg t"
  unfolding unit_interval_def nonneg_def by (erule all_entries_mono) auto

lemma binary_unit_interval: "binary t \<Longrightarrow> unit_interval t"
  unfolding unit_interval_def binary_def by (erule all_entries_mono) auto

lemma same_shape_true:
  "same_shape a b \<Longrightarrow> wf_tensor a"
  by (simp add: same_shape_def)

lemma same_shape_pred:
  assumes "same_shape a b" "all_entries P b" "i < nrows a" "j < ncols a"
  shows "P (entry b i j)"
  using assms all_entries_entry [of P b i j] by (simp add: same_shape_def)

lemma same_shape_lab:
  assumes "same_shape a b" "all_entries P a" "i < nrows a" "j < ncols a"
  shows "P (entry a i j)"
  using assms all_entries_entry [of P a i j] by (simp add: same_shape_def)

lemma nonneg_sums:
  assumes s: "same_shape y_true y_pred" and nt: "nonneg y_true" and np: "nonneg y_pred"
    and j: "j < ncols y_true"
  shows "0 \<le> spec_tp y_true y_pred j"
    and "0 \<le> spec_tp y_true y_pred j + spec_fp y_true y_pred j"
    and "0 \<le> spec_tp y_true y_pred j + spec_fn y_true y_pred j"
    and "0 \<le> spec_gp y_true j"
proof -
  have t: "\<And>i. i < nrows y_true \<Longrightarrow> 0 \<le> entry y_true i j"
    using same_shape_lab [OF s nt [unfolded nonneg_def] _ j] .
  have p: "\<And>i. i < nrows y_true \<Longrightarrow> 0 \<le> entry y_pred i j"
    using same_shape_pred [OF s np [unfolded nonneg_def] _ j] .
  show "0 \<le> spec_tp y_true y_pred j"
    unfolding spec_tp_def by (intro sum_list_upt_nonneg) (simp add: t p)
  show "0 \<le> spec_tp y_true y_pred j + spec_fp y_true y_pred j"
    unfolding tp_plus_fp by (intro sum_list_upt_nonneg) (simp add: p)
  show g: "0 \<le> spec_gp y_true j"
    unfolding spec_gp_def by (intro sum_list_upt_nonneg) (simp add: t)
  show "0 \<le> spec_tp y_true y_pred j + spec_fn y_true y_pred j"
    unfolding tp_plus_fn by (rule g)
qed

lemma nonneg_column:
  assumes s: "same_shape y_true y_pred" and nt: "nonneg y_true" and np: "nonneg y_pred"
    and j: "j < ncols y_true" and e: "0 < eps"
  shows "0 < spec_tp y_true y_pred j + spec_fp y_true y_pred j + eps"
    and "0 < spec_tp y_true y_pred j + spec_fn y_true y_pred j + eps"
    and "spec_p eps y_true y_pred j = Finite (p_value eps y_true y_pred j)"
    and "spec_r eps y_true y_pred j = Finite (r_value eps y_true y_pred j)"
    and "0 \<le> p_value eps y_true y_pred j"
    and "0 \<le> r_value eps y_true y_pred j"
    and "0 < p_value eps y_true y_pred j + r_value eps y_true y_pred j + eps"
    and "spec_f1 eps y_true y_pred j = Finite (f1_value eps y_true y_pred j)"
    and "0 \<le> f1_value eps y_true y_pred j"
proof -
  note n = nonneg_sums [OF s nt np j]
  show dp: "0 < spec_tp y_true y_pred j + spec_fp y_true y_pred j + eps"
    using n(2) e by simp
  show dr: "0 < spec_tp y_true y_pred j + spec_fn y_true y_pred j + eps"
    using n(3) e by simp
  show p: "spec_p eps y_true y_pred j = Finite (p_value eps y_true y_pred j)"
    using dp by (simp add: spec_p_def p_value_def)
  show r: "spec_r eps y_true y_pred j = Finite (r_value eps y_true y_pred j)"
    using dr by (simp add: spec_r_def r_value_def)
  show p0: "0 \<le> p_value eps y_true y_pred j"
    using n(1) dp by (simp add: p_value_def)
  show r0: "0 \<le> r_value eps y_true y_pred j"
    using n(1) dr by (simp add: r_value_def)
  show d: "0 < p_value eps y_true y_pred j + r_value eps y_true y_pred j + eps"
    using p0 r0 e by simp
  show "spec_f1 eps y_true y_pred j = Finite (f1_value eps y_true y_pred j)"
    using d by (simp add: spec_f1_def p r f1_value_def)
  show "0 \<le> f1_value eps y_true y_pred j"
    using p0 r0 d by (simp add: f1_value_def)
qed

lemma unit_column:
  assumes s: "same_shape y_true y_pred" and bt: "unit_interval y_true"
    and up: "unit_interval y_pred" and j: "j < ncols y_true" and e: "0 < eps"
  shows "p_value eps y_true y_pred j \<le> 1"
    and "r_value eps y_true y_pred j \<le> 1"
    and "f1_value eps y_true y_pred j \<le> 1"
proof -
  have t: "\<And>i. i < nrows y_true \<Longrightarrow> 0 \<le> entry y_true i j \<and> entry y_true i j \<le> 1"
    using same_shape_lab [OF s bt [unfolded unit_interval_def] _ j] .
  have p: "\<And>i. i < nrows y_true \<Longrightarrow> 0 \<le> entry y_pred i j \<and> entry y_pred i j \<le> 1"
    using same_shape_pred [OF s up [unfolded unit_interval_def] _ j] .
  note c = nonneg_column [OF s unit_interval_nonneg [OF bt] unit_interval_nonneg [OF up] j e]
  note n = nonneg_sums [OF s unit_interval_nonneg [OF bt] unit_interval_nonneg [OF up] j]
  have fp: "0 \<le> spec_fp y_true y_pred j"
    unfolding spec_fp_def by (intro sum_list_upt_nonneg) (simp add: t p)
  have fn: "0 \<le> spec_fn y_true y_pred j"
    unfolding spec_fn_def by (intro sum_list_upt_nonneg) (simp add: t p)
  show p1: "p_value eps y_true y_pred j \<le> 1"
    using c(1) fp e by (simp add: p_value_def)
  show r1: "r_value eps y_true y_pred j \<le> 1"
    using c(2) fn e by (simp add: r_value_def)
  show "f1_value eps y_true y_pred j \<le> 1"
    unfolding f1_value_def using f1_real_bounds(2) [OF c(5) p1 c(6) r1 e] .
qed

lemma map_upt_cong:
  "(\<And>j. j < n \<Longrightarrow> f j = g j) \<Longrightarrow> map f [0..<n] = map g [0..<n]"
  by (rule map_cong [OF refl]) simp

lemma sum_list_upt_divide:
  "sum_list (map (\<lambda>j. f j / c) [0..<n] :: real list) = sum_list (map f [0..<n]) / c"
  by (induction n) (simp_all add: add_divide_distrib)

lemma sum_list_upt_all_zero:
  assumes "\<And>i. i < n \<Longrightarrow> 0 \<le> f i" "sum_list (map f [0..<n] :: real list) = 0" "i < n"
  shows "f i = 0"
proof -
  have "\<And>x. x \<in> set (map f [0..<n]) \<Longrightarrow> 0 \<le> x" using assms(1) by auto
  then have "\<forall>x \<in> set (map f [0..<n]). x = 0"
    using assms(2) by (simp only: sum_list_nonneg_eq_0_iff)
  then show ?thesis using assms(3) by simp
qed

lemma precision_denominator_spec:
  assumes s: "same_shape y_true y_pred"
  shows "precision_denominator eps y_true y_pred
       = map (\<lambda>j. spec_tp y_true y_pred j + spec_fp y_true y_pred j + eps) [0..<ncols y_true]"
  by (simp add: precision_denominator_def true_positives_spec [OF s]
        false_positives_spec [OF s] map2_map_map)

lemma recall_denominator_spec:
  assumes s: "same_shape y_true y_pred"
  shows "recall_denominator eps y_true y_pred
       = map (\<lambda>j. spec_tp y_true y_pred j + spec_fn y_true y_pred j + eps) [0..<ncols y_true]"
  by (simp add: recall_denominator_def true_positives_spec [OF s]
        false_negatives_spec [OF s] map2_map_map)

lemma f1_denominator_spec:
  assumes s: "same_shape y_true y_pred"
  shows "f1_denominator eps y_true y_pred
       = map (\<lambda>j. tf_add (tf_add (spec_p eps y_true y_pred j) (spec_r eps y_true y_pred j))
                     (Finite eps)) [0..<ncols y_true]"
  by (simp add: f1_denominator_def precision_spec [OF s] recall_spec [OF s] map2_map_map)

lemma f1_vector_nonneg:
  assumes s: "same_shape y_true y_pred" and nt: "nonneg y_true" and np: "nonneg y_pred"
    and e: "0 < eps"
  shows "f1_vector eps y_true y_pred
       = map Finite (map (f1_value eps y_true y_pred) [0..<ncols y_true])"
proof -
  have "map (spec_f1 eps y_true y_pred) [0..<ncols y_true]
      = map (\<lambda>j. Finite (f1_value eps y_true y_pred j)) [0..<ncols y_true]"
    by (rule map_upt_cong) (rule nonneg_column(8) [OF s nt np _ e])
  then show ?thesis by (simp add: f1_vector_spec [OF s] comp_def)
qed

lemma where_nan_zero_Finite: "where_nan_zero (map Finite xs) = map Finite xs"
  by (rule where_nan_zero_id) auto

lemma f1_loss_nonneg:
  assumes s: "same_shape y_true y_pred" and nt: "nonneg y_true" and np: "nonneg y_pred"
    and e: "0 < eps" and n: "0 < ncols y_true"
  shows "f1_loss eps y_true y_pred
       = Finite (1 - sum_list (map (f1_value eps y_true y_pred) [0..<ncols y_true])
                        / real (ncols y_true))"
  unfolding f1_loss_def f1_columns_def f1_vector_nonneg [OF s nt np e]
    where_nan_zero_Finite k_mean_def k_sum_Finite tf_sub_def
  using n by simp

lemma spec_gp_nonneg:
  assumes wf: "wf_tensor y_true" and nt: "nonneg y_true" and j: "j < ncols y_true"
  shows "0 \<le> spec_gp y_true j"
  unfolding spec_gp_def
  by (intro sum_list_upt_nonneg) (rule all_entries_entry [OF nt [unfolded nonneg_def] wf _ j])

lemma spec_total_gp_nonneg:
  assumes wf: "wf_tensor y_true" and nt: "nonneg y_true"
  shows "0 \<le> spec_total_gp y_true"
  unfolding spec_total_gp_def
  by (intro sum_list_upt_nonneg) (rule spec_gp_nonneg [OF wf nt])

lemma weighted_raw_no_support:
  assumes s: "same_shape y_true y_pred" and nt: "nonneg y_true" and np: "nonneg y_pred"
    and e: "0 < eps" and g: "spec_total_gp y_true = 0"
  shows "weighted_f1_raw eps y_true y_pred = map (\<lambda>j. NaN) [0..<ncols y_true]"
proof -
  have wf: "wf_tensor y_true" using s by (simp add: same_shape_def)
  have z: "spec_gp y_true j = 0" if "j < ncols y_true" for j
    using sum_list_upt_all_zero [of "ncols y_true" "spec_gp y_true" j]
      spec_gp_nonneg [OF wf nt] g that
    by (simp add: spec_total_gp_def)
  have "map (spec_weighted_term eps y_true y_pred) [0..<ncols y_true]
      = map (\<lambda>j. NaN) [0..<ncols y_true]"
  proof (rule map_upt_cong)
    fix j assume j: "j < ncols y_true"
    show "spec_weighted_term eps y_true y_pred j = NaN"
      by (simp add: spec_weighted_term_def nonneg_column(8) [OF s nt np j e] z [OF j] g)
  qed
  then show ?thesis by (simp only: weighted_f1_raw_spec [OF s])
qed

lemma weighted_raw_support:
  assumes s: "same_shape y_true y_pred" and nt: "nonneg y_true" and np: "nonneg y_pred"
    and e: "0 < eps" and g: "spec_total_gp y_true \<noteq> 0"
  shows "weighted_f1_raw eps y_true y_pred
       = map Finite (map (\<lambda>j. f1_value eps y_true y_pred j * spec_gp y_true j
                                 / spec_total_gp y_true) [0..<ncols y_true])"
proof -
  have "map (spec_weighted_term eps y_true y_pred) [0..<ncols y_true]
      = map (\<lambda>j. Finite (f1_value eps y_true y_pred j * spec_gp y_true j
                            / spec_total_gp y_true)) [0..<ncols y_true]"
  proof (rule map_upt_cong)
    fix j assume j: "j < ncols y_true"
    show "spec_weighted_term eps y_true y_pred j
        = Finite (f1_value eps y_true y_pred j * spec_gp y_true j / spec_total_gp y_true)"
      using g by (simp add: spec_weighted_term_def nonneg_column(8) [OF s nt np j e])
  qed
  then show ?thesis by (simp add: weighted_f1_raw_spec [OF s] comp_def)
qed

lemma where_nan_zero_all_NaN:
  "where_nan_zero (map (\<lambda>j. NaN) js) = map Finite (map (\<lambda>j. 0) js)"
  by (simp add: where_nan_zero_def nan_to_zero_def is_nan_def comp_def)

lemma sum_list_zeros: "sum_list (map (\<lambda>j. 0) js :: real list) = 0"
  by (induction js) simp_all

lemma weighted_loss_no_support:
  assumes s: "same_shape y_true y_pred" and nt: "nonneg y_true" and np: "nonneg y_pred"
    and e: "0 < eps" and g: "spec_total_gp y_true = 0"
  shows "weighted_f1_loss eps y_true y_pred = Finite 1"
  unfolding weighted_f1_loss_def weighted_f1_columns_def
    weighted_raw_no_support [OF s nt np e g] where_nan_zero_all_NaN k_sum_Finite
    sum_list_zeros tf_sub_def
  by simp

lemma weighted_loss_support:
  assumes s: "same_shape y_true y_pred" and nt: "nonneg y_true" and np: "nonneg y_pred"
    and e: "0 < eps" and g: "spec_total_gp y_true \<noteq> 0"
  shows "weighted_f1_loss eps y_true y_pred
       = Finite (1 - sum_list (map (\<lambda>j. f1_value eps y_true y_pred j * spec_gp y_true j)
                                 [0..<ncols y_true]) / spec_total_gp y_true)"
  unfolding weighted_f1_loss_def weighted_f1_columns_def
    weighted_raw_support [OF s nt np e g] where_nan_zero_Finite k_sum_Finite
    sum_list_upt_divide tf_sub_def
  by simp

lemma weighted_sum_nonneg:
  assumes s: "same_shape y_true y_pred" and nt: "nonneg y_true"
    and np: "nonneg y_pred" and e: "0 < eps"
  shows "0 \<le> sum_list (map (\<lambda>j. f1_value eps y_true y_pred j * spec_gp y_true j)
                          [0..<ncols y_true])"
proof -
  have wf: "wf_tensor y_true" using s by (simp add: same_shape_def)
  have f0: "\<And>j. j < ncols y_true \<Longrightarrow> 0 \<le> f1_value eps y_true y_pred j"
    using nonneg_column(9) [OF s nt np _ e] .
  have g0: "\<And>j. j < ncols y_true \<Longrightarrow> 0 \<le> spec_gp y_true j"
    using spec_gp_nonneg [OF wf nt] .
  show ?thesis
    by (intro sum_list_upt_nonneg mult_nonneg_nonneg f0 g0)
qed

lemma weighted_loss_at_most_one:
  assumes s: "same_shape y_true y_pred" and nt: "nonneg y_true"
    and np: "nonneg y_pred" and e: "0 < eps"
  shows "\<exists>v. weighted_f1_loss eps y_true y_pred = Finite v \<and> v \<le> 1"
proof (cases "spec_total_gp y_true = 0")
  case True
  then show ?thesis
    using weighted_loss_no_support [OF s nt np e] by simp
next
  case False
  have wf: "wf_tensor y_true" using s by (simp add: same_shape_def)
  have g: "0 < spec_total_gp y_true"
    using False spec_total_gp_nonneg [OF wf nt] by simp
  note b = weighted_sum_nonneg [OF s nt np e]
  let ?w = "sum_list (map (\<lambda>j. f1_value eps y_true y_pred j * spec_gp y_true j)
                          [0..<ncols y_true]) / spec_total_gp y_true"
  have "0 \<le> ?w" using b g by simp
  then show ?thesis
    using weighted_loss_support [OF s nt np e False] by simp
qed

lemma f1_loss_range:
  assumes s: "same_shape y_true y_pred" and ut: "unit_interval y_true"
    and up: "unit_interval y_pred" and e: "0 < eps" and n: "0 < ncols y_true"
  shows "\<exists>v. f1_loss eps y_true y_pred = Finite v \<and> 0 \<le> v \<and> v \<le> 1"
proof -
  note nt = unit_interval_nonneg [OF ut] and np = unit_interval_nonneg [OF up]
  let ?s = "sum_list (map (f1_value eps y_true y_pred) [0..<ncols y_true])"
  have "0 \<le> ?s"
    by (intro sum_list_upt_nonneg) (rule nonneg_column(9) [OF s nt np _ e])
  moreover have "?s \<le> sum_list (map (\<lambda>j. 1) [0..<ncols y_true])"
    by (intro sum_list_upt_mono) (rule unit_column(3) [OF s ut up _ e])
  then have "?s \<le> real (ncols y_true)"
    by (simp add: sum_list_upt_const)
  ultimately have "0 \<le> ?s / real (ncols y_true)" "?s / real (ncols y_true) \<le> 1"
    using n by simp_all
  then show ?thesis
    using f1_loss_nonneg [OF s nt np e n] by simp
qed

text \<open>
  Claim C10, as the program has it.  For \<open>y_true\<close> with entries in \<open>{0,1}\<close>, \<open>y_pred\<close> of the
  same shape with entries in \<open>[0,1]\<close> and \<open>\<epsilon> > 0\<close>, the denominators \<open>tp+fp+\<epsilon>\<close>,
  \<open>tp+fn+\<epsilon>\<close> and \<open>p+r+\<epsilon>\<close> are strictly positive in every column, so the F1 of a column
  is never NaN and the replacement of NaN in \<^verbatim>\<open>f1_loss\<close> changes nothing.  In
  \<^verbatim>\<open>weighted_f1_loss\<close> the division by \<open>\<Sum> gp\<close> yields NaN, and the replacement is taken,
  exactly when there is a column and \<open>\<Sum> gp = 0\<close>.  \<^verbatim>\<open>weighted_f1_loss\<close> returns a number
  that is at most 1, and \<^verbatim>\<open>f1_loss\<close> returns a number in \<open>[0,1]\<close> when there is at least
  one column.  That \<^verbatim>\<open>weighted_f1_loss\<close> is not negative is not part of the statement:
  its weighted terms are quotients by \<open>\<Sum> gp\<close> whose sum is 1 only up to rounding.
\<close>

theorem loss_denominators_positive:
  assumes s: "same_shape y_true y_pred" and e: "0 < eps"
    and bt: "binary y_true" and up: "unit_interval y_pred"
  shows "list_all (\<lambda>d. 0 < d) (precision_denominator eps y_true y_pred)
     \<and> list_all (\<lambda>d. 0 < d) (recall_denominator eps y_true y_pred)
     \<and> list_all (\<lambda>d. \<exists>x. d = Finite x \<and> 0 < x) (f1_denominator eps y_true y_pred)
     \<and> NaN \<notin> set (f1_vector eps y_true y_pred)
     \<and> f1_columns eps y_true y_pred = f1_vector eps y_true y_pred
     \<and> (NaN \<in> set (weighted_f1_raw eps y_true y_pred))
         = (0 < ncols y_true \<and> sum_list (k_sum0 y_true) = 0)
     \<and> (\<exists>v. weighted_f1_loss eps y_true y_pred = Finite v \<and> v \<le> 1)
     \<and> (0 < ncols y_true \<longrightarrow>
          (\<exists>v. f1_loss eps y_true y_pred = Finite v \<and> 0 \<le> v \<and> v \<le> 1))"
proof -
  have wf: "wf_tensor y_true" using s by (simp add: same_shape_def)
  note nt = binary_nonneg [OF bt] and np = unit_interval_nonneg [OF up]
  note c = nonneg_column [OF s nt np _ e]
  have 1: "list_all (\<lambda>d. 0 < d) (precision_denominator eps y_true y_pred)"
    using c(1) by (simp add: precision_denominator_spec [OF s] list_all_iff)
  have 2: "list_all (\<lambda>d. 0 < d) (recall_denominator eps y_true y_pred)"
    using c(2) by (simp add: recall_denominator_spec [OF s] list_all_iff)
  have 3: "list_all (\<lambda>d. \<exists>x. d = Finite x \<and> 0 < x) (f1_denominator eps y_true y_pred)"
    using c(7) by (simp add: f1_denominator_spec [OF s] list_all_iff c(3) c(4))
  have 4: "NaN \<notin> set (f1_vector eps y_true y_pred)"
    by (auto simp: f1_vector_nonneg [OF s nt np e])
  have 5: "f1_columns eps y_true y_pred = f1_vector eps y_true y_pred"
    unfolding f1_columns_def by (rule where_nan_zero_id [OF 4])
  have g: "sum_list (k_sum0 y_true) = spec_total_gp y_true"
    by (simp add: k_sum0_spec [OF wf] spec_total_gp_def)
  have 6: "(NaN \<in> set (weighted_f1_raw eps y_true y_pred))
         = (0 < ncols y_true \<and> sum_list (k_sum0 y_true) = 0)"
  proof (cases "spec_total_gp y_true = 0")
    case True
    then show ?thesis
      unfolding g weighted_raw_no_support [OF s nt np e True] by auto
  next
    case False
    then show ?thesis
      unfolding g weighted_raw_support [OF s nt np e False] by auto
  qed
  have 7: "\<exists>v. weighted_f1_loss eps y_true y_pred = Finite v \<and> v \<le> 1"
    using weighted_loss_at_most_one [OF s nt np e] .
  have 8: "\<exists>v. f1_loss eps y_true y_pred = Finite v \<and> 0 \<le> v \<and> v \<le> 1"
    if "0 < ncols y_true"
    using f1_loss_range [OF s binary_unit_interval [OF bt] up e that] .
  show ?thesis
    using 1 2 3 4 5 6 7 8 by blast
qed

text \<open>The replacement of NaN is reached on labels in \<open>{0,1}\<close>: for one sample without its
  one label the weighted term is \<open>0 / 0\<close>.  And \<^verbatim>\<open>f1_loss\<close> of a tensor without columns is
  the mean of no number, NaN.\<close>

theorem nan_replacement_counterexample:
  "same_shape no_labels no_labels \<and> binary no_labels \<and> unit_interval no_labels
   \<and> weighted_f1_raw (1 / 10 ^ 7) no_labels no_labels = [NaN]
   \<and> weighted_f1_loss (1 / 10 ^ 7) no_labels no_labels = Finite 1
   \<and> same_shape no_columns no_columns \<and> binary no_columns \<and> unit_interval no_columns
   \<and> f1_loss (1 / 10 ^ 7) no_columns no_columns = NaN"
proof -
  have "weighted_f1_raw (1 / 10 ^ 7) no_labels no_labels = [NaN]"
    by (simp add: loss_defs no_labels_def)
  moreover have "weighted_f1_loss (1 / 10 ^ 7) no_labels no_labels = Finite 1"
    by (simp add: loss_defs no_labels_def)
  moreover have "f1_loss (1 / 10 ^ 7) no_columns no_columns = NaN"
    by (simp add: loss_defs no_columns_def)
  moreover have "same_shape no_columns no_columns" "binary no_columns" "binary no_labels"
    "unit_interval no_columns" "unit_interval no_labels"
    by (simp_all add: same_shape_def wf_tensor_def binary_def unit_interval_def
          all_entries_def no_columns_def no_labels_def)
  ultimately show ?thesis
    by (simp add: same_shape_no_labels)
qed

theorem loss_denominators_positive_witness:
  "precision_denominator (1 / 10 ^ 7) example_labels example_predictions
     = [9000001 / 10000000, 12000001 / 10000000]
   \<and> list_all (\<lambda>d. 0 < d) (precision_denominator (1 / 10 ^ 7) example_labels example_predictions)
   \<and> NaN \<notin> set (weighted_f1_raw (1 / 10 ^ 7) example_labels example_predictions)
   \<and> (\<exists>v. weighted_f1_loss (1 / 10 ^ 7) example_labels example_predictions = Finite v
          \<and> v \<le> 1)
   \<and> (\<exists>v. f1_loss (1 / 10 ^ 7) example_labels example_predictions = Finite v
          \<and> 0 \<le> v \<and> v \<le> 1)"
proof -
  have s: "same_shape example_labels example_predictions"
    by (simp add: same_shape_def wf_tensor_def nrows_def example_labels_def
          example_predictions_def)
  have e: "(0::real) < 1 / 10 ^ 7" by simp
  have b: "binary example_labels"
    by (simp add: binary_def all_entries_def example_labels_def)
  have u: "unit_interval example_predictions"
    by (simp add: unit_interval_def all_entries_def example_predictions_def)
  have n: "0 < ncols example_labels"
    by (simp add: example_labels_def)
  have g: "sum_list (k_sum0 example_labels) \<noteq> 0"
    by (simp add: k_sum0_def example_labels_def upt_0_2)
  have d: "precision_denominator (1 / 10 ^ 7) example_labels example_predictions
     = [9000001 / 10000000, 12000001 / 10000000]"
    by (simp add: loss_defs example_labels_def example_predictions_def upt_0_2)
  show ?thesis
    using loss_denominators_positive [OF s e b u] n g d
    by simp
qed

section \<open>The combined loss\<close>

lemma slice_rows_ones:
  "slice_rows 0 90 (ones_row n) = ones_row n"
  "slice_rows 90 202 (ones_row n) = no_rows n"
  "slice_rows 202 248 (ones_row n) = no_rows n"
  by (simp_all add: slice_rows_def slice_list_def ones_row_def no_rows_def)

lemma slice_cols_ones:
  "hi \<le> n \<Longrightarrow> slice_cols lo hi (ones_row n) = ones_row (hi - lo)"
  by (simp add: slice_cols_def slice_list_def ones_row_def min_def)

lemma same_shape_ones: "same_shape (ones_row n) (ones_row n)"
  by (simp add: same_shape_def wf_tensor_def ones_row_def)

lemma nonneg_ones: "nonneg (ones_row n)"
  by (simp add: nonneg_def all_entries_def ones_row_def list_all_iff)

lemma same_shape_no_rows: "same_shape (no_rows n) (no_rows n)"
  by (simp add: same_shape_def wf_tensor_def no_rows_def)

lemma nonneg_no_rows: "nonneg (no_rows n)"
  by (simp add: nonneg_def all_entries_def no_rows_def)

lemma weighted_loss_no_rows:
  assumes "0 < eps"
  shows "weighted_f1_loss eps (no_rows n) (no_rows n) = Finite 1"
proof -
  have "\<And>j. spec_gp (no_rows n) j = 0"
    by (simp add: spec_gp_def nrows_def no_rows_def)
  then have "spec_total_gp (no_rows n) = 0"
    unfolding spec_total_gp_def by (intro sum_list_upt_zero)
  then show ?thesis
    using weighted_loss_no_support [OF same_shape_no_rows nonneg_no_rows nonneg_no_rows assms]
    by simp
qed

lemma ones_column:
  assumes "j < n"
  shows "spec_tp (ones_row n) (ones_row n) j = 1"
    and "spec_fp (ones_row n) (ones_row n) j = 0"
    and "spec_fn (ones_row n) (ones_row n) j = 0"
    and "spec_gp (ones_row n) j = 1"
  using assms
  by (simp_all add: spec_tp_def spec_fp_def spec_fn_def spec_gp_def entry_def nrows_def
        ones_row_def)

lemma weighted_loss_ones:
  assumes e: "0 < eps" and n: "0 < n"
  shows "weighted_f1_loss eps (ones_row n) (ones_row n)
       = Finite (1 - 2 * (1 / (1 + eps)) * (1 / (1 + eps))
                       / (1 / (1 + eps) + 1 / (1 + eps) + eps))"
proof -
  let ?c = "2 * (1 / (1 + eps)) * (1 / (1 + eps)) / (1 / (1 + eps) + 1 / (1 + eps) + eps)"
  have nc: "ncols (ones_row n) = n" by (simp add: ones_row_def)
  have g: "spec_total_gp (ones_row n) = real n"
  proof -
    have "sum_list (map (spec_gp (ones_row n)) [0..<n]) = sum_list (map (\<lambda>j. 1) [0..<n])"
      by (rule sum_list_upt_cong) (rule ones_column(4))
    then show ?thesis by (simp add: spec_total_gp_def nc sum_list_upt_const)
  qed
  have w: "sum_list (map (\<lambda>j. f1_value eps (ones_row n) (ones_row n) j
                              * spec_gp (ones_row n) j) [0..<n])
         = real n * ?c"
  proof -
    have "sum_list (map (\<lambda>j. f1_value eps (ones_row n) (ones_row n) j
                              * spec_gp (ones_row n) j) [0..<n])
        = sum_list (map (\<lambda>j. ?c) [0..<n])"
      by (rule sum_list_upt_cong)
         (simp add: f1_value_def p_value_def r_value_def ones_column)
    then show ?thesis by (simp only: sum_list_upt_const)
  qed
  have g0: "spec_total_gp (ones_row n) \<noteq> 0" using g n by simp
  show ?thesis
    unfolding weighted_loss_support [OF same_shape_ones nonneg_ones nonneg_ones e g0] nc w g
    using n by simp
qed

text \<open>
  Claim C1 does not hold of the program.  \<^verbatim>\<open>y_true[slice(0, 90)]\<close> selects the samples 0
  to 89 of the batch, not the columns 0 to 89 (\<^verbatim>\<open>partial_weighted_f1\<close> writes
  \<^verbatim>\<open>y_true[:, slice]\<close> for the columns).  For a batch of one sample that has all 248
  labels, predicted exactly, the program averages the weighted loss of the whole sample
  with the losses of two empty batches, which are 1, and returns about \<open>0.667\<close>; the
  average over the three column ranges is about \<open>1.5e-7\<close>.
\<close>

theorem wf1_loss_p_slices_rows:
  "wf1_loss_p (1 / 10 ^ 7) (ones_row 248) (ones_row 248)
     = Finite (4000000900000060000003 / 6000000900000060000003)
   \<and> wf1_loss_columns (1 / 10 ^ 7) (ones_row 248) (ones_row 248)
     = Finite (300000020000001 / 2000000300000020000001)
   \<and> wf1_loss_p (1 / 10 ^ 7) (ones_row 248) (ones_row 248)
     \<noteq> wf1_loss_columns (1 / 10 ^ 7) (ones_row 248) (ones_row 248)"
proof -
  have 1: "wf1_loss_p (1 / 10 ^ 7) (ones_row 248) (ones_row 248)
     = Finite (4000000900000060000003 / 6000000900000060000003)"
    unfolding wf1_loss_p_def slice_rows_ones
    by (simp add: weighted_loss_no_rows weighted_loss_ones)
  have 2: "wf1_loss_columns (1 / 10 ^ 7) (ones_row 248) (ones_row 248)
     = Finite (300000020000001 / 2000000300000020000001)"
    unfolding wf1_loss_columns_def
    by (simp add: slice_cols_ones weighted_loss_ones)
  show ?thesis unfolding 1 2 by simp
qed

section \<open>The batched inference\<close>































lemma model_output_width: "\<exists>m. model_outputs known = Inr m \<and> width m = 248"
  by (simp add: model_outputs_def block_value is_activation_def input_layers_def
        paired_input_def last_layer_def upt_0_3)




end
